theory Spec2Isabelle
  imports Main
begin

section \<open>useSessionStorage: a shallow embedding\<close>

text \<open>
  The hook \<^verbatim>\<open>useSessionStorage(key, initialValue, options)\<close> keeps one piece of
  component state in step with one entry of \<^verbatim>\<open>window.sessionStorage\<close>. This theory
  embeds its five callbacks (\<^verbatim>\<open>serializer\<close>, \<^verbatim>\<open>deserializer\<close>, \<^verbatim>\<open>readValue\<close>,
  \<^verbatim>\<open>setValue\<close>, \<^verbatim>\<open>handleStorageChange\<close>) as functions over an explicit world: the
  module constant \<^verbatim>\<open>IS_SERVER\<close>, the window (session storage and the events
  dispatched on it) and the console. Every \<^verbatim>\<open>throw\<close> is a value \<open>Inl e\<close>, every
  \<^verbatim>\<open>try/catch\<close> a case distinction on it. The world is that of one mounted hook:
  an event dispatched on the window reaches the hook's own listener.
\<close>

subsection \<open>Values, exceptions, console output\<close>

text \<open>
  The type parameter \<^verbatim>\<open>T\<close> is erased at run time, and the default codec inspects the
  value with \<^verbatim>\<open>instanceof Map\<close> and \<^verbatim>\<open>instanceof Set\<close>; so the values the hook handles
  are run-time JavaScript values. Numbers are restricted to integers, objects are
  lists of properties in property order, a Map is the list of its entries and a Set
  the list of its elements, both in insertion order.
\<close>

datatype jsval =
    JUndefined
  | JNull
  | JBool bool
  | JNum int
  | JStr string
  | JArr "jsval list"
  | JObj "(string \<times> jsval) list"
  | JMap "(jsval \<times> jsval) list"
  | JSet "jsval list"

datatype exn =
    ReferenceError
  | SecurityError
  | QuotaExceededError
  | SyntaxError
  | TypeError
  | Thrown string

text \<open>
  The four messages the source writes: the \<^verbatim>\<open>console.warn\<close> of lines 124, 142 and 114
  (each with the key, the last two with the caught error) and the \<^verbatim>\<open>console.error\<close>
  of line 90.
\<close>

datatype console_msg =
    WarnNotClient string
  | WarnSetting string exn
  | WarnReading string exn
  | ErrorParsingJSON exn

subsection \<open>The platform\<close>

text \<open>
  \<^verbatim>\<open>JSON.stringify\<close>, \<^verbatim>\<open>JSON.parse\<close>, \<^verbatim>\<open>Object.fromEntries\<close> and \<^verbatim>\<open>Array.from\<close> belong to
  the JavaScript engine, not to the hook: they are parameters of the embedding.
  \<^verbatim>\<open>JSON.stringify\<close> returns a string or \<^verbatim>\<open>undefined\<close> (\<open>None\<close>), or throws.
\<close>

record platform =
  JSON_stringify :: "jsval \<Rightarrow> exn + string option"
  JSON_parse :: "string \<Rightarrow> exn + jsval"
  Object_fromEntries :: "(jsval \<times> jsval) list \<Rightarrow> jsval"
  Array_from :: "jsval list \<Rightarrow> jsval"

text \<open>
  Session storage: the stored items, and for each access whether it throws (access
  denied, quota exceeded). \<^verbatim>\<open>setItem\<close> converts its argument to a string first, so
  \<^verbatim>\<open>undefined\<close> is stored as the text \<^verbatim>\<open>undefined\<close>.
\<close>

record storage =
  items :: "string \<rightharpoonup> string"
  getItem_throws :: "string \<Rightarrow> exn option"
  setItem_throws :: "string \<Rightarrow> string \<Rightarrow> exn option"

definition getItem :: "storage \<Rightarrow> string \<Rightarrow> exn + string option" where
  "getItem s k = (case getItem_throws s k of Some e \<Rightarrow> Inl e | None \<Rightarrow> Inr (items s k))"

definition DOMString :: "string option \<Rightarrow> string" where
  "DOMString v = (case v of None \<Rightarrow> ''undefined'' | Some s \<Rightarrow> s)"

definition setItem :: "storage \<Rightarrow> string \<Rightarrow> string option \<Rightarrow> exn + storage" where
  "setItem s k v =
     (case setItem_throws s k (DOMString v) of
        Some e \<Rightarrow> Inl e
      | None \<Rightarrow> Inr (s\<lparr>items := (items s)(k \<mapsto> DOMString v)\<rparr>))"

text \<open>
  An event carries its type and, for a \<^verbatim>\<open>StorageEvent\<close>, a key that may be \<^verbatim>\<open>null\<close>;
  a \<^verbatim>\<open>CustomEvent\<close> has no \<^verbatim>\<open>key\<close> property.
\<close>

datatype event = StorageEvent string "string option" | CustomEvent string

fun event_type :: "event \<Rightarrow> string" where
  "event_type (StorageEvent t _) = t"
| "event_type (CustomEvent t) = t"

fun event_key :: "event \<Rightarrow> string option" where
  "event_key (StorageEvent _ k) = k"
| "event_key (CustomEvent _) = None"

text \<open>
  The window: whether reading its property \<^verbatim>\<open>sessionStorage\<close> throws (access to the
  storage is denied), the storage, and the events dispatched on the window so far.
\<close>

record dom_window =
  sessionStorage_throws :: "exn option"
  sessionStorage :: storage
  dispatched :: "event list"

text \<open>
  \<^verbatim>\<open>IS_SERVER\<close> is computed once, when the module is loaded; \<open>window\<close> is what the
  identifier \<^verbatim>\<open>window\<close> denotes when a callback runs (\<open>None\<close>: evaluating it throws
  a \<^verbatim>\<open>ReferenceError\<close>).
\<close>

record world =
  IS_SERVER :: bool
  window :: "dom_window option"
  console :: "console_msg list"

definition log :: "console_msg list \<Rightarrow> world \<Rightarrow> world" where
  "log msgs w = w\<lparr>console := console w @ msgs\<rparr>"

text \<open>The expression \<^verbatim>\<open>window.sessionStorage\<close>.\<close>

definition window_sessionStorage :: "world \<Rightarrow> exn + storage" where
  "window_sessionStorage w =
     (case window w of
        None \<Rightarrow> Inl ReferenceError
      | Some win \<Rightarrow>
          (case sessionStorage_throws win of
             Some e \<Rightarrow> Inl e
           | None \<Rightarrow> Inr (sessionStorage win)))"

subsection \<open>The hook's arguments and state\<close>

text \<open>
  \<^verbatim>\<open>initialValue\<close> is a value or a function that produces one; like every function
  the caller passes in (the updater, the custom serializer and deserializer) the
  producer may throw instead of returning. It is called anew at every evaluation of
  \<^verbatim>\<open>initialValue\<close>: at the first render and at each read.
\<close>

datatype initial = InitialLiteral jsval | InitialProducer "unit \<Rightarrow> exn + jsval"

record options =
  opt_serializer :: "(jsval \<Rightarrow> exn + string) option"
  opt_deserializer :: "(string \<Rightarrow> exn + jsval) option"

record props =
  key :: string
  initialValue :: initial
  options :: options

datatype action = SetLiteral jsval | SetUpdater "jsval \<Rightarrow> exn + jsval"

record hook =
  storedValue :: jsval

text \<open>\<^verbatim>\<open>initialValue instanceof Function ? initialValue() : initialValue\<close>\<close>

fun eval_initial :: "initial \<Rightarrow> exn + jsval" where
  "eval_initial (InitialLiteral v) = Inr v"
| "eval_initial (InitialProducer f) = f ()"

text \<open>\<^verbatim>\<open>useState<T>(initialValue)\<close>, line 52: the first render of the hook.\<close>

definition useState :: "props \<Rightarrow> exn + hook" where
  "useState pr =
     (case eval_initial (initialValue pr) of
        Inl e \<Rightarrow> Inl e
      | Inr v \<Rightarrow> Inr \<lparr>storedValue = v\<rparr>)"

subsection \<open>The callbacks\<close>

text \<open>Lines 54 to 71.\<close>

definition serializer :: "platform \<Rightarrow> options \<Rightarrow> jsval \<Rightarrow> exn + string option" where
  "serializer P opts v =
     (case opt_serializer opts of
        Some f \<Rightarrow> map_sum id Some (f v)
      | None \<Rightarrow>
          (case v of
             JMap entries \<Rightarrow> JSON_stringify P (Object_fromEntries P entries)
           | JSet elems \<Rightarrow> JSON_stringify P (Array_from P elems)
           | _ \<Rightarrow> JSON_stringify P v))"

text \<open>
  Lines 73 to 97. The result is the value returned or the exception thrown, with the
  messages written to the console. Lines 83 and 84 evaluate \<^verbatim>\<open>initialValue\<close> before
  \<^verbatim>\<open>JSON.parse\<close> is called, outside the \<^verbatim>\<open>try\<close> of line 87.
\<close>

definition deserializer :: "platform \<Rightarrow> props \<Rightarrow> string \<Rightarrow> (exn + jsval) \<times> console_msg list" where
  "deserializer P pr v =
     (case opt_deserializer (options pr) of
        Some f \<Rightarrow> (f v, [])
      | None \<Rightarrow>
          if v = ''undefined'' then (Inr JUndefined, [])
          else
            (case eval_initial (initialValue pr) of
               Inl e \<Rightarrow> (Inl e, [])
             | Inr defaultValue \<Rightarrow>
                 (case JSON_parse P v of
                    Inl e \<Rightarrow> (Inr defaultValue, [ErrorParsingJSON e])
                  | Inr parsed \<Rightarrow> (Inr parsed, []))))"

text \<open>
  Lines 101 to 117. \<open>sessionStorage_getItem\<close> is the expression
  \<^verbatim>\<open>window.sessionStorage.getItem(key)\<close> and \<open>readValue_try\<close> the \<^verbatim>\<open>try\<close> block.
  \<^verbatim>\<open>raw ? deserializer(raw) : initialValueToUse\<close> tests the truthiness of \<^verbatim>\<open>raw\<close>:
  \<^verbatim>\<open>null\<close> and the empty string are both falsy. Lines 102 and 103 evaluate
  \<^verbatim>\<open>initialValue\<close> before the \<^verbatim>\<open>try\<close> block is entered: what the producer throws
  there, \<open>readValue\<close> throws.
\<close>

definition sessionStorage_getItem :: "world \<Rightarrow> string \<Rightarrow> exn + string option" where
  "sessionStorage_getItem w k =
     (case window_sessionStorage w of
        Inl e \<Rightarrow> Inl e
      | Inr store \<Rightarrow> getItem store k)"

definition readValue_try :: "platform \<Rightarrow> props \<Rightarrow> jsval \<Rightarrow> world \<Rightarrow> (exn + jsval) \<times> console_msg list" where
  "readValue_try P pr initialValueToUse w =
     (case sessionStorage_getItem w (key pr) of
        Inl e \<Rightarrow> (Inl e, [])
      | Inr raw \<Rightarrow>
          (case raw of
             None \<Rightarrow> (Inr initialValueToUse, [])
           | Some s \<Rightarrow>
               if s = [] then (Inr initialValueToUse, [])
               else deserializer P pr s))"

definition readValue :: "platform \<Rightarrow> props \<Rightarrow> world \<Rightarrow> (exn + jsval) \<times> console_msg list" where
  "readValue P pr w =
     (case eval_initial (initialValue pr) of
        Inl e \<Rightarrow> (Inl e, [])
      | Inr initialValueToUse \<Rightarrow>
          if IS_SERVER w then (Inr initialValueToUse, [])
          else
            (case readValue_try P pr initialValueToUse w of
               (Inr v, msgs) \<Rightarrow> (Inr v, msgs)
             | (Inl e, msgs) \<Rightarrow> (Inr initialValueToUse, msgs @ [WarnReading (key pr) e])))"

text \<open>
  Lines 151 to 159: \<^verbatim>\<open>event?.key && event.key !== key\<close> holds when the event has a
  key that is truthy (not \<^verbatim>\<open>null\<close>, not empty) and differs from the hook's. Otherwise
  the handler calls \<open>readValue\<close>, and throws what that throws (nothing has been
  logged then); else it stores the value read. The effect of lines 146 to 149 does
  what the handler does on an event with the hook's own key.
\<close>

fun handleStorageChange :: "platform \<Rightarrow> props \<Rightarrow> event \<Rightarrow> hook \<times> world \<Rightarrow> exn + hook \<times> world" where
  "handleStorageChange P pr ev (h, w) =
     (if (case event_key ev of None \<Rightarrow> False | Some k \<Rightarrow> k \<noteq> [] \<and> k \<noteq> key pr) then Inr (h, w)
      else
        (case readValue P pr w of
           (Inl e, msgs) \<Rightarrow> Inl e
         | (Inr v, msgs) \<Rightarrow> Inr (h\<lparr>storedValue := v\<rparr>, log msgs w)))"

text \<open>
  \<^verbatim>\<open>window.dispatchEvent\<close>, seen from one mounted hook. The event is recorded among
  the events dispatched on the window (\<open>publish\<close>). The hook has attached
  \<open>handleStorageChange\<close> to the event types \<^verbatim>\<open>storage\<close> and \<^verbatim>\<open>session-storage\<close>
  (lines 162 and 166), and the browser runs the listeners before \<^verbatim>\<open>dispatchEvent\<close>
  returns: so the hook's own handler runs inside the call. An exception thrown by a
  listener is reported by the browser and does not reach the caller of
  \<^verbatim>\<open>dispatchEvent\<close>. At line 140 \<^verbatim>\<open>window\<close> is defined, line 134 having used it.
\<close>

definition publish :: "event \<Rightarrow> world \<Rightarrow> world" where
  "publish ev w =
     w\<lparr>window := map_option (\<lambda>win. win\<lparr>dispatched := dispatched win @ [ev]\<rparr>) (window w)\<rparr>"

fun dispatchEvent :: "platform \<Rightarrow> props \<Rightarrow> event \<Rightarrow> hook \<times> world \<Rightarrow> hook \<times> world" where
  "dispatchEvent P pr ev (h, w) =
     (if event_type ev = ''storage'' \<or> event_type ev = ''session-storage'' then
        (case handleStorageChange P pr ev (h, publish ev w) of
           Inl e \<Rightarrow> (h, publish ev w)
         | Inr hw \<Rightarrow> hw)
      else (h, publish ev w))"

text \<open>
  Lines 121 to 144. \<open>resolve\<close> is line 131 and \<open>save\<close> line 134, where the receiver
  \<^verbatim>\<open>window.sessionStorage\<close> is evaluated before the argument \<^verbatim>\<open>serializer(newValue)\<close>,
  and that before the call of \<^verbatim>\<open>setItem\<close>; it returns the window with the new store.
  \<open>setValue_try\<close> is the \<^verbatim>\<open>try\<close> block; when it throws, it returns the exception
  together with the world as it is then. Line 137 sets the state to the new value;
  the handler that line 140 runs sets it again, to what it reads.
\<close>

definition resolve :: "platform \<Rightarrow> props \<Rightarrow> action \<Rightarrow> world \<Rightarrow> (exn + jsval) \<times> console_msg list" where
  "resolve P pr a w =
     (case a of
        SetLiteral v \<Rightarrow> (Inr v, [])
      | SetUpdater f \<Rightarrow>
          (case readValue P pr w of
             (Inl e, msgs) \<Rightarrow> (Inl e, msgs)
           | (Inr cur, msgs) \<Rightarrow> (f cur, msgs)))"

definition save :: "platform \<Rightarrow> props \<Rightarrow> jsval \<Rightarrow> world \<Rightarrow> exn + dom_window" where
  "save P pr newValue w =
     (case window w of
        None \<Rightarrow> Inl ReferenceError
      | Some win \<Rightarrow>
          (case sessionStorage_throws win of
             Some e \<Rightarrow> Inl e
           | None \<Rightarrow>
               (case serializer P (options pr) newValue of
                  Inl e \<Rightarrow> Inl e
                | Inr encoded \<Rightarrow>
                    (case setItem (sessionStorage win) (key pr) encoded of
                       Inl e \<Rightarrow> Inl e
                     | Inr store \<Rightarrow> Inr (win\<lparr>sessionStorage := store\<rparr>)))))"

fun setValue_try :: "platform \<Rightarrow> props \<Rightarrow> action \<Rightarrow> hook \<times> world \<Rightarrow> exn \<times> world + hook \<times> world" where
  "setValue_try P pr a (h, w) =
     (let (r, msgs) = resolve P pr a w;
          w' = log msgs w
      in case r of
        Inl e \<Rightarrow> Inl (e, w')
      | Inr newValue \<Rightarrow>
          (case save P pr newValue w' of
             Inl e \<Rightarrow> Inl (e, w')
           | Inr win \<Rightarrow>
               Inr (dispatchEvent P pr (StorageEvent ''session-storage'' (Some (key pr)))
                      (h\<lparr>storedValue := newValue\<rparr>, w'\<lparr>window := Some win\<rparr>))))"

fun setValue :: "platform \<Rightarrow> props \<Rightarrow> action \<Rightarrow> hook \<times> world \<Rightarrow> hook \<times> world" where
  "setValue P pr a (h, w) =
     (let w1 = (if IS_SERVER w then log [WarnNotClient (key pr)] w else w)
      in case setValue_try P pr a (h, w1) of
           Inr hw \<Rightarrow> hw
         | Inl (e, w2) \<Rightarrow> (h, log [WarnSetting (key pr) e] w2))"

subsection \<open>An ECMAScript instance of the platform\<close>

text \<open>
  A platform to evaluate the callbacks on concrete inputs: \<^verbatim>\<open>JSON.stringify\<close> and
  \<^verbatim>\<open>JSON.parse\<close> on the values of \<open>jsval\<close>. It covers integer numerals, strings of
  ASCII characters with the two-character escapes, arrays and objects. Outside this
  fragment are numerals with a fraction or an exponent and \<^verbatim>\<open>\u\<close> escapes in the input
  of the parser: no evaluation below uses them.
\<close>

fun join :: "string \<Rightarrow> string list \<Rightarrow> string" where
  "join sep [] = []"
| "join sep [x] = x"
| "join sep (x # y # ys) = x @ sep @ join sep (y # ys)"

definition digit :: "nat \<Rightarrow> char" where
  "digit n = ''0123456789abcdef'' ! n"

fun show_nat :: "nat \<Rightarrow> string" where
  "show_nat n = (if n < 10 then [digit n] else show_nat (n div 10) @ [digit (n mod 10)])"

definition show_int :: "int \<Rightarrow> string" where
  "show_int i = (if i < 0 then CHR ''-'' # show_nat (nat (- i)) else show_nat (nat i))"

text \<open>\<^verbatim>\<open>QuoteJSONString\<close>: the escapes of one character, then the quoted string.\<close>

definition escape :: "char \<Rightarrow> string" where
  "escape c =
     (let n = (of_char c :: nat) in
      if c = CHR 0x22 then [CHR 0x5C, CHR 0x22]
      else if c = CHR 0x5C then [CHR 0x5C, CHR 0x5C]
      else if n = 8 then [CHR 0x5C, CHR ''b'']
      else if n = 9 then [CHR 0x5C, CHR ''t'']
      else if n = 10 then [CHR 0x5C, CHR ''n'']
      else if n = 12 then [CHR 0x5C, CHR ''f'']
      else if n = 13 then [CHR 0x5C, CHR ''r'']
      else if n < 32 then [CHR 0x5C, CHR ''u'', CHR ''0'', CHR ''0'', digit (n div 16), digit (n mod 16)]
      else [c])"

definition quote :: "string \<Rightarrow> string" where
  "quote s = CHR 0x22 # concat (map escape s) @ [CHR 0x22]"

text \<open>
  \<^verbatim>\<open>JSON.stringify\<close>: \<^verbatim>\<open>undefined\<close> has no serialization (\<open>None\<close>); in an array it is
  written \<^verbatim>\<open>null\<close>, in an object the property is left out; a Map or a Set has no
  enumerable property of its own and is written \<^verbatim>\<open>{}\<close>.
\<close>

fun stringify :: "jsval \<Rightarrow> string option" where
  "stringify JUndefined = None"
| "stringify JNull = Some ''null''"
| "stringify (JBool b) = Some (if b then ''true'' else ''false'')"
| "stringify (JNum i) = Some (show_int i)"
| "stringify (JStr s) = Some (quote s)"
| "stringify (JArr xs) =
     Some (''['' @ join '','' (map (\<lambda>x. case stringify x of None \<Rightarrow> ''null'' | Some s \<Rightarrow> s) xs) @ '']'')"
| "stringify (JObj kvs) =
     Some (''{'' @ join '','' (concat (map (\<lambda>kv.
        case stringify (snd kv) of None \<Rightarrow> [] | Some s \<Rightarrow> [quote (fst kv) @ '':'' @ s]) kvs)) @ ''}'')"
| "stringify (JMap _) = Some ''{}''"
| "stringify (JSet _) = Some ''{}''"

text \<open>\<^verbatim>\<open>ToString\<close>, which turns the key of a Map entry into a property key.\<close>

fun ToString :: "jsval \<Rightarrow> string" where
  "ToString JUndefined = ''undefined''"
| "ToString JNull = ''null''"
| "ToString (JBool b) = (if b then ''true'' else ''false'')"
| "ToString (JNum i) = show_int i"
| "ToString (JStr s) = s"
| "ToString (JArr xs) =
     join '','' (map (\<lambda>x. if x = JUndefined \<or> x = JNull then [] else ToString x) xs)"
| "ToString (JObj _) = ''[object Object]''"
| "ToString (JMap _) = ''[object Map]''"
| "ToString (JSet _) = ''[object Set]''"

definition is_digit :: "char \<Rightarrow> bool" where
  "is_digit c = (48 \<le> (of_char c :: nat) \<and> (of_char c :: nat) \<le> 57)"

definition digits_value :: "string \<Rightarrow> int" where
  "digits_value ds = foldl (\<lambda>n c. 10 * n + (of_char c - 48)) 0 ds"

text \<open>
  The properties of an object are listed with the array indices first, in ascending
  order, then the other keys in the order of their creation. An array index is the
  canonical numeral of a number below 4294967295. Defining a property that exists
  keeps its place and replaces its value.
\<close>

definition array_index :: "string \<Rightarrow> int option" where
  "array_index k =
     (if k = [] then None
      else if \<not> list_all is_digit k then None
      else if hd k = CHR ''0'' \<and> length k > 1 then None
      else if digits_value k \<ge> 4294967295 then None
      else Some (digits_value k))"

definition precedes :: "string \<Rightarrow> string \<Rightarrow> bool" where
  "precedes k k' =
     (case array_index k of
        None \<Rightarrow> False
      | Some i \<Rightarrow> (case array_index k' of None \<Rightarrow> True | Some j \<Rightarrow> i < j))"

fun define_property :: "(string \<times> jsval) list \<Rightarrow> string \<Rightarrow> jsval \<Rightarrow> (string \<times> jsval) list" where
  "define_property [] k v = [(k, v)]"
| "define_property ((k', v') # kvs) k v =
     (if k' = k then (k, v) # kvs
      else if precedes k k' then (k, v) # (k', v') # kvs
      else (k', v') # define_property kvs k v)"

definition object_of :: "(string \<times> jsval) list \<Rightarrow> jsval" where
  "object_of kvs = JObj (foldl (\<lambda>obj (k, v). define_property obj k v) [] kvs)"

definition fromEntries :: "(jsval \<times> jsval) list \<Rightarrow> jsval" where
  "fromEntries entries = object_of (map (\<lambda>(k, v). (ToString k, v)) entries)"

text \<open>
  \<^verbatim>\<open>JSON.parse\<close>, by recursive descent. Each function takes the text that is left and
  returns what it read with the rest. The first argument bounds the depth of the
  recursion; \<open>parse\<close> starts it at twice the length of the text, plus two.
\<close>

definition is_ws :: "char \<Rightarrow> bool" where
  "is_ws c = (c = CHR '' '' \<or> c = CHR 0x09 \<or> c = CHR 0x0A \<or> c = CHR 0x0D)"

definition skip_ws :: "string \<Rightarrow> string" where
  "skip_ws s = dropWhile is_ws s"

definition unescape :: "char \<Rightarrow> char option" where
  "unescape c =
     (if c = CHR 0x22 \<or> c = CHR 0x5C \<or> c = CHR ''/'' then Some c
      else if c = CHR ''b'' then Some (CHR 0x08)
      else if c = CHR ''t'' then Some (CHR 0x09)
      else if c = CHR ''n'' then Some (CHR 0x0A)
      else if c = CHR ''f'' then Some (CHR 0x0C)
      else if c = CHR ''r'' then Some (CHR 0x0D)
      else None)"

fun parse_chars :: "string \<Rightarrow> (string \<times> string) option" where
  "parse_chars [] = None"
| "parse_chars [c] = (if c = CHR 0x22 then Some ([], []) else None)"
| "parse_chars (c # d # cs) =
     (if c = CHR 0x22 then Some ([], d # cs)
      else if c = CHR 0x5C then
        (case unescape d of
           None \<Rightarrow> None
         | Some e \<Rightarrow> map_option (\<lambda>(s, rest). (e # s, rest)) (parse_chars cs))
      else if (of_char c :: nat) < 32 then None
      else map_option (\<lambda>(s, rest). (c # s, rest)) (parse_chars (d # cs)))"

definition parse_number :: "string \<Rightarrow> (jsval \<times> string) option" where
  "parse_number s =
     (let neg = (s \<noteq> [] \<and> hd s = CHR ''-'');
          t = (if neg then tl s else s);
          ds = takeWhile is_digit t;
          rest = dropWhile is_digit t
      in if ds = [] \<or> (hd ds = CHR ''0'' \<and> length ds > 1) then None
         else if rest \<noteq> [] \<and> hd rest \<in> set ''.eE'' then None
         else Some (JNum (if neg then - digits_value ds else digits_value ds), rest))"

definition parse_literal :: "string \<Rightarrow> (jsval \<times> string) option" where
  "parse_literal s =
     (if take 4 s = ''null'' then Some (JNull, drop 4 s)
      else if take 4 s = ''true'' then Some (JBool True, drop 4 s)
      else if take 5 s = ''false'' then Some (JBool False, drop 5 s)
      else parse_number s)"

fun parse_value :: "nat \<Rightarrow> string \<Rightarrow> (jsval \<times> string) option"
  and parse_elements :: "nat \<Rightarrow> string \<Rightarrow> (jsval list \<times> string) option"
  and parse_members :: "nat \<Rightarrow> string \<Rightarrow> ((string \<times> jsval) list \<times> string) option"
where
  "parse_value 0 s = None"
| "parse_value (Suc n) s =
     (case skip_ws s of
        [] \<Rightarrow> None
      | c # cs \<Rightarrow>
          if c = CHR ''['' then
            (case skip_ws cs of
               [] \<Rightarrow> None
             | d # ds \<Rightarrow>
                 if d = CHR '']'' then Some (JArr [], ds)
                 else map_option (\<lambda>(xs, rest). (JArr xs, rest)) (parse_elements n cs))
          else if c = CHR ''{'' then
            (case skip_ws cs of
               [] \<Rightarrow> None
             | d # ds \<Rightarrow>
                 if d = CHR ''}'' then Some (JObj [], ds)
                 else map_option (\<lambda>(kvs, rest). (object_of kvs, rest)) (parse_members n cs))
          else if c = CHR 0x22 then map_option (\<lambda>(str, rest). (JStr str, rest)) (parse_chars cs)
          else parse_literal (c # cs))"
| "parse_elements 0 s = None"
| "parse_elements (Suc n) s =
     (case parse_value n s of
        None \<Rightarrow> None
      | Some (x, rest) \<Rightarrow>
          (case skip_ws rest of
             [] \<Rightarrow> None
           | c # cs \<Rightarrow>
               if c = CHR '']'' then Some ([x], cs)
               else if c = CHR '','' then
                 map_option (\<lambda>(xs, rest'). (x # xs, rest')) (parse_elements n cs)
               else None))"
| "parse_members 0 s = None"
| "parse_members (Suc n) s =
     (case skip_ws s of
        [] \<Rightarrow> None
      | q # qs \<Rightarrow>
          if q \<noteq> CHR 0x22 then None
          else
            (case parse_chars qs of
               None \<Rightarrow> None
             | Some (k, rest) \<Rightarrow>
                 (case skip_ws rest of
                    [] \<Rightarrow> None
                  | c # cs \<Rightarrow>
                      if c \<noteq> CHR '':'' then None
                      else
                        (case parse_value n cs of
                           None \<Rightarrow> None
                         | Some (x, rest') \<Rightarrow>
                             (case skip_ws rest' of
                                [] \<Rightarrow> None
                              | e # es \<Rightarrow>
                                  if e = CHR ''}'' then Some ([(k, x)], es)
                                  else if e = CHR '','' then
                                    map_option (\<lambda>(kvs, rest''). ((k, x) # kvs, rest''))
                                      (parse_members n es)
                                  else None)))))"

definition parse :: "string \<Rightarrow> exn + jsval" where
  "parse s =
     (case parse_value (2 * length s + 2) s of
        None \<Rightarrow> Inl SyntaxError
      | Some (v, rest) \<Rightarrow>
          if skip_ws rest = [] then Inr v else Inl SyntaxError)"

definition ecma :: platform where
  "ecma = \<lparr>JSON_stringify = (\<lambda>v. Inr (stringify v)),
           JSON_parse = parse,
           Object_fromEntries = fromEntries,
           Array_from = JArr\<rparr>"

subsection \<open>Concrete arguments and worlds\<close>

text \<open>
  The default codec; a codec for string-valued state that stores the text itself;
  a store that holds nothing, one whose quota is exhausted and one that holds a
  single item; a browser tab on a given store, and one where access to the storage
  is denied; a server, where \<^verbatim>\<open>window\<close> is not defined; a hook for a counter, one
  whose initial count comes from a producer, one whose producer throws, one for a
  name kept as text, one for a collection; the values of type \<^verbatim>\<open>number\<close>.
\<close>

definition default_options :: options where
  "default_options = \<lparr>opt_serializer = None, opt_deserializer = None\<rparr>"

definition text_options :: options where
  "text_options =
     \<lparr>opt_serializer = Some (\<lambda>v. case v of JStr s \<Rightarrow> Inr s | _ \<Rightarrow> Inl TypeError),
      opt_deserializer = Some (\<lambda>s. Inr (JStr s))\<rparr>"

definition empty_store :: storage where
  "empty_store =
     \<lparr>items = Map.empty, getItem_throws = (\<lambda>_. None), setItem_throws = (\<lambda>_ _. None)\<rparr>"

definition full_store :: storage where
  "full_store = empty_store\<lparr>setItem_throws := (\<lambda>_ _. Some QuotaExceededError)\<rparr>"

definition store_with :: "string \<Rightarrow> string \<Rightarrow> storage" where
  "store_with k s = empty_store\<lparr>items := [k \<mapsto> s]\<rparr>"

definition tab :: "storage \<Rightarrow> dom_window" where
  "tab st = \<lparr>sessionStorage_throws = None, sessionStorage = st, dispatched = []\<rparr>"

definition browser :: "storage \<Rightarrow> world" where
  "browser st = \<lparr>IS_SERVER = False, window = Some (tab st), console = []\<rparr>"

definition denied_browser :: world where
  "denied_browser =
     \<lparr>IS_SERVER = False,
      window = Some ((tab empty_store)\<lparr>sessionStorage_throws := Some SecurityError\<rparr>),
      console = []\<rparr>"

definition server :: world where
  "server = \<lparr>IS_SERVER = True, window = None, console = []\<rparr>"

definition count_props :: "options \<Rightarrow> props" where
  "count_props opts = \<lparr>key = ''count'', initialValue = InitialLiteral (JNum 0), options = opts\<rparr>"

definition produced_props :: props where
  "produced_props =
     \<lparr>key = ''count'', initialValue = InitialProducer (\<lambda>_. Inr (JNum 3)),
      options = default_options\<rparr>"

definition throwing_props :: props where
  "throwing_props =
     \<lparr>key = ''count'', initialValue = InitialProducer (\<lambda>_. Inl (Thrown ''no initial value'')),
      options = default_options\<rparr>"

definition name_props :: props where
  "name_props =
     \<lparr>key = ''name'', initialValue = InitialLiteral (JStr ''anonymous''), options = text_options\<rparr>"

definition tags_props :: props where
  "tags_props = \<lparr>key = ''tags'', initialValue = InitialLiteral JNull, options = default_options\<rparr>"

fun is_number :: "jsval \<Rightarrow> bool" where
  "is_number (JNum _) = True"
| "is_number _ = False"

section \<open>Properties\<close>

subsection \<open>Writing to the console and recording an event\<close>

lemma log_Nil [simp]: "log [] w = w"
  by (simp add: log_def)

lemma log_log [simp]: "log ms (log ms' w) = log (ms' @ ms) w"
  by (simp add: log_def)

lemma window_log [simp]: "window (log msgs w) = window w"
  by (simp add: log_def)

lemma IS_SERVER_log [simp]: "IS_SERVER (log msgs w) = IS_SERVER w"
  by (simp add: log_def)

lemma console_log [simp]: "console (log msgs w) = console w @ msgs"
  by (simp add: log_def)

lemma log_window_update [simp]: "(log msgs w)\<lparr>window := x\<rparr> = log msgs (w\<lparr>window := x\<rparr>)"
  by (simp add: log_def)

lemma publish_log [simp]: "publish ev (log msgs w) = log msgs (publish ev w)"
  by (simp add: publish_def log_def)

lemma IS_SERVER_publish [simp]: "IS_SERVER (publish ev w) = IS_SERVER w"
  by (simp add: publish_def)

lemma console_publish [simp]: "console (publish ev w) = console w"
  by (simp add: publish_def)

lemma window_publish [simp]:
  "window (publish ev w) = map_option (\<lambda>win. win\<lparr>dispatched := dispatched win @ [ev]\<rparr>) (window w)"
  by (simp add: publish_def)

lemma window_sessionStorage_log [simp]:
  "window_sessionStorage (log msgs w) = window_sessionStorage w"
  by (simp add: window_sessionStorage_def)

lemma window_sessionStorage_publish [simp]:
  "window_sessionStorage (publish ev w) = window_sessionStorage w"
  by (simp add: window_sessionStorage_def split: option.splits)

text \<open>A read depends on the world through \<^verbatim>\<open>IS_SERVER\<close> and the storage only.\<close>

lemma readValue_try_cong:
  assumes "window_sessionStorage w' = window_sessionStorage w"
  shows "readValue_try P pr i w' = readValue_try P pr i w"
  using assms by (simp add: readValue_try_def sessionStorage_getItem_def)

lemma readValue_cong:
  assumes "IS_SERVER w' = IS_SERVER w" and "window_sessionStorage w' = window_sessionStorage w"
  shows "readValue P pr w' = readValue P pr w"
  using assms by (simp add: readValue_def readValue_try_cong [of w' w] split: sum.splits)

lemma readValue_log [simp]: "readValue P pr (log msgs w) = readValue P pr w"
  by (rule readValue_cong) simp_all

lemma readValue_publish [simp]: "readValue P pr (publish ev w) = readValue P pr w"
  by (rule readValue_cong) simp_all

lemma resolve_log [simp]: "resolve P pr a (log msgs w) = resolve P pr a w"
  by (simp add: resolve_def split: action.splits)

lemma save_log [simp]: "save P pr v (log msgs w) = save P pr v w"
  by (simp add: save_def)

subsection \<open>What \<open>readValue\<close> returns\<close>

lemma readValue_throws:
  assumes "eval_initial (initialValue pr) = Inl e"
  shows "readValue P pr w = (Inl e, [])"
  using assms by (simp add: readValue_def)

lemma readValue_silent_throw:
  assumes "fst (readValue P pr w) = Inl e"
  shows "readValue P pr w = (Inl e, [])"
  using assms
  by (auto simp: readValue_def split: sum.splits prod.splits if_splits)

lemma readValue_cases:
  assumes "eval_initial (initialValue pr) = Inr init"
  shows "fst (readValue P pr w) =
     Inr (if IS_SERVER w then init
          else case sessionStorage_getItem w (key pr) of
                 Inl e \<Rightarrow> init
               | Inr None \<Rightarrow> init
               | Inr (Some s) \<Rightarrow>
                   if s = [] then init
                   else (case fst (deserializer P pr s) of
                           Inl e \<Rightarrow> init
                         | Inr v \<Rightarrow> v))"
  using assms
  by (simp add: readValue_def readValue_try_def split: sum.splits option.splits prod.splits)

lemma deserializer_parse_error:
  assumes "opt_deserializer (options pr) = None" and "s \<noteq> ''undefined''"
    and "eval_initial (initialValue pr) = Inr init" and "JSON_parse P s = Inl e"
  shows "deserializer P pr s = (Inr init, [ErrorParsingJSON e])"
  using assms by (simp add: deserializer_def)

subsection \<open>The handler, alone and inside \<open>dispatchEvent\<close>\<close>

lemma handleStorageChange_reads:
  assumes "event_key ev = None \<or> event_key ev = Some (key pr)"
  shows "handleStorageChange P pr ev (h, w) =
           (case readValue P pr w of
              (Inl e, msgs) \<Rightarrow> Inl e
            | (Inr v, msgs) \<Rightarrow> Inr (h\<lparr>storedValue := v\<rparr>, log msgs w))"
  using assms by auto

lemma dispatchEvent_own:
  "dispatchEvent P pr (StorageEvent ''session-storage'' (Some (key pr))) (h, w) =
     (case readValue P pr w of
        (Inl e, msgs) \<Rightarrow> (h, publish (StorageEvent ''session-storage'' (Some (key pr))) w)
      | (Inr v, msgs) \<Rightarrow>
          (h\<lparr>storedValue := v\<rparr>,
           log msgs (publish (StorageEvent ''session-storage'' (Some (key pr))) w)))"
  by (simp split: prod.splits sum.splits)

declare handleStorageChange.simps [simp del]

declare dispatchEvent.simps [simp del]

subsection \<open>The two ways out of \<open>setValue\<close>\<close>

text \<open>
  When line 131 or line 134 throws, the \<^verbatim>\<open>catch\<close> clause logs the exception, and
  nothing but the console has changed.
\<close>

lemma setValue_throws:
  assumes "fst (resolve P pr a w) = Inl e
             \<or> (\<exists>v. fst (resolve P pr a w) = Inr v \<and> save P pr v w = Inl e)"
  shows "setValue P pr a (h, w) =
           (h, log ((if IS_SERVER w then [WarnNotClient (key pr)] else [])
                      @ snd (resolve P pr a w) @ [WarnSetting (key pr) e]) w)"
  using assms by (auto simp: Let_def split: prod.splits sum.splits)

text \<open>
  Otherwise the state takes the new value, the event is dispatched, and the hook's
  own handler replaces the state by what it reads from the new store.
\<close>

lemma setValue_returns:
  assumes "fst (resolve P pr a w) = Inr v" and "save P pr v w = Inr win"
  shows "setValue P pr a (h, w) =
           (case readValue P pr (w\<lparr>window := Some win\<rparr>) of
              (Inl e, msgs) \<Rightarrow>
                (h\<lparr>storedValue := v\<rparr>,
                 log ((if IS_SERVER w then [WarnNotClient (key pr)] else [])
                        @ snd (resolve P pr a w))
                   (publish (StorageEvent ''session-storage'' (Some (key pr)))
                      (w\<lparr>window := Some win\<rparr>)))
            | (Inr r, msgs) \<Rightarrow>
                (h\<lparr>storedValue := r\<rparr>,
                 log ((if IS_SERVER w then [WarnNotClient (key pr)] else [])
                        @ snd (resolve P pr a w) @ msgs)
                   (publish (StorageEvent ''session-storage'' (Some (key pr)))
                      (w\<lparr>window := Some win\<rparr>))))"
proof -
  have same: "readValue P pr (log ms w\<lparr>window := Some win\<rparr>) = readValue P pr (w\<lparr>window := Some win\<rparr>)"
    for ms
    by (rule readValue_cong) (simp_all add: window_sessionStorage_def log_def)
  show ?thesis
    using assms
    by (auto simp: Let_def dispatchEvent_own same split: prod.splits sum.splits)
qed

declare setValue.simps [simp del]

lemma IS_SERVER_setValue: "IS_SERVER (snd (setValue P pr a (h, w))) = IS_SERVER w"
proof (cases "fst (resolve P pr a w)")
  case (Inl e)
  then have "setValue P pr a (h, w) =
           (h, log ((if IS_SERVER w then [WarnNotClient (key pr)] else [])
                      @ snd (resolve P pr a w) @ [WarnSetting (key pr) e]) w)"
    by (intro setValue_throws) simp
  then show ?thesis by simp
next
  case resolved: (Inr v)
  show ?thesis
  proof (cases "save P pr v w")
    case (Inl e)
    with resolved have "setValue P pr a (h, w) =
           (h, log ((if IS_SERVER w then [WarnNotClient (key pr)] else [])
                      @ snd (resolve P pr a w) @ [WarnSetting (key pr) e]) w)"
      by (intro setValue_throws) simp
    then show ?thesis by simp
  next
    case (Inr win)
    show ?thesis
      by (simp add: setValue_returns [OF resolved Inr] split: prod.splits sum.splits)
  qed
qed

lemma save_cases:
  "save P pr v w = Inl e \<longleftrightarrow>
     (window w = None \<and> e = ReferenceError)
   \<or> (\<exists>win. window w = Some win \<and> sessionStorage_throws win = Some e)
   \<or> (\<exists>win. window w = Some win \<and> sessionStorage_throws win = None
         \<and> serializer P (options pr) v = Inl e)
   \<or> (\<exists>win enc. window w = Some win \<and> sessionStorage_throws win = None
         \<and> serializer P (options pr) v = Inr enc
         \<and> setItem (sessionStorage win) (key pr) enc = Inl e)"
  by (auto simp: save_def split: option.splits sum.splits)

lemma save_returns:
  assumes "window w = Some win" and "sessionStorage_throws win = None"
    and "serializer P (options pr) v = Inr enc"
    and "setItem_throws (sessionStorage win) (key pr) (DOMString enc) = None"
  shows "save P pr v w =
           Inr (win\<lparr>sessionStorage := (sessionStorage win)
                  \<lparr>items := (items (sessionStorage win))(key pr \<mapsto> DOMString enc)\<rparr>\<rparr>)"
  using assms by (simp add: save_def setItem_def)

text \<open>
  A write that succeeds, seen from outside: the window afterwards, and what a read
  returns afterwards; the state is that value (the new value if the read throws).
\<close>

lemma window_after_setValue:
  assumes "fst (resolve P pr a w) = Inr v" and "save P pr v w = Inr win"
  shows "window (snd (setValue P pr a (h, w))) =
           Some (win\<lparr>dispatched := dispatched win
                   @ [StorageEvent ''session-storage'' (Some (key pr))]\<rparr>)"
  by (simp add: setValue_returns [OF assms] split: prod.splits sum.splits)

lemma readValue_after_setValue:
  assumes "fst (resolve P pr a w) = Inr v" and "save P pr v w = Inr win"
  shows "readValue P' pr' (snd (setValue P pr a (h, w))) = readValue P' pr' (w\<lparr>window := Some win\<rparr>)"
  by (simp add: setValue_returns [OF assms] split: prod.splits sum.splits)

lemma state_after_setValue:
  assumes "fst (resolve P pr a w) = Inr v" and "save P pr v w = Inr win"
  shows "fst (setValue P pr a (h, w)) =
           h\<lparr>storedValue := (case fst (readValue P pr (snd (setValue P pr a (h, w)))) of
                               Inl e \<Rightarrow> v
                             | Inr r \<Rightarrow> r)\<rparr>"
  unfolding readValue_after_setValue [OF assms]
  by (simp add: setValue_returns [OF assms] split: prod.splits sum.splits)

lemma getItem_after_setValue:
  assumes "fst (resolve P pr a w) = Inr v"
    and "window w = Some win" and "sessionStorage_throws win = None"
    and "serializer P (options pr) v = Inr enc"
    and "setItem_throws (sessionStorage win) (key pr) (DOMString enc) = None"
    and "getItem_throws (sessionStorage win) (key pr) = None"
  shows "sessionStorage_getItem (snd (setValue P pr a (h, w))) (key pr)
           = Inr (Some (DOMString enc))"
  using assms
  by (simp add: window_after_setValue [OF assms(1) save_returns [OF assms(2-5)]]
      sessionStorage_getItem_def window_sessionStorage_def getItem_def)

lemma resolve_literal [simp]: "resolve P pr (SetLiteral v) w = (Inr v, [])"
  by (simp add: resolve_def)


text \<open>A write that leaves the window as it was has failed, and left the state too.\<close>

lemma setValue_same_window:
  assumes "window (snd (setValue P pr a (h, w))) = window w"
  shows "fst (setValue P pr a (h, w)) = h"
proof (cases "fst (resolve P pr a w)")
  case (Inl e)
  then have "setValue P pr a (h, w) =
           (h, log ((if IS_SERVER w then [WarnNotClient (key pr)] else [])
                      @ snd (resolve P pr a w) @ [WarnSetting (key pr) e]) w)"
    by (intro setValue_throws) simp
  then show ?thesis by simp
next
  case resolved: (Inr v)
  show ?thesis
  proof (cases "save P pr v w")
    case (Inl e)
    with resolved have "setValue P pr a (h, w) =
           (h, log ((if IS_SERVER w then [WarnNotClient (key pr)] else [])
                      @ snd (resolve P pr a w) @ [WarnSetting (key pr) e]) w)"
      by (intro setValue_throws) simp
    then show ?thesis by simp
  next
    case saved: (Inr win')
    from saved obtain win where "window w = Some win" "dispatched win' = dispatched win"
      by (auto simp: save_def split: option.splits sum.splits)
    with assms window_after_setValue [OF resolved saved, of h]
    have "dispatched win = dispatched win @ [StorageEvent ''session-storage'' (Some (key pr))]"
      by (auto dest: arg_cong [where f = dispatched])
    then show ?thesis by simp
  qed
qed

section \<open>The claims\<close>

subsection \<open>Writing\<close>

text \<open>
  Claim C2. When the \<^verbatim>\<open>try\<close> block of \<open>setValue\<close> throws, because the updater throws
  while the new value is resolved, or reading \<^verbatim>\<open>window.sessionStorage\<close> throws, or the
  serializer throws, or \<^verbatim>\<open>setItem\<close> throws, \<open>setValue\<close> logs the warning of its
  \<^verbatim>\<open>catch\<close> clause with that exception, and the hook's state, the store and the list of
  dispatched events are what they were. Conversely, whenever the state or the window
  is different after \<open>setValue\<close>, the new value was resolved, \<^verbatim>\<open>setItem\<close> returned the
  new store, exactly one event with the hook's key was dispatched, and the state is
  what the hook's handler read on that event (the new value if that read throws).
\<close>

theorem setValue_failure_atomic:
  "(fst (resolve P pr a w) = Inl e
      \<or> (\<exists>v win. fst (resolve P pr a w) = Inr v \<and> window w = Some win
            \<and> sessionStorage_throws win = Some e)
      \<or> (\<exists>v win. fst (resolve P pr a w) = Inr v \<and> window w = Some win
            \<and> sessionStorage_throws win = None
            \<and> serializer P (options pr) v = Inl e)
      \<or> (\<exists>v win enc. fst (resolve P pr a w) = Inr v \<and> window w = Some win
            \<and> sessionStorage_throws win = None
            \<and> serializer P (options pr) v = Inr enc
            \<and> setItem (sessionStorage win) (key pr) enc = Inl e)
    \<longrightarrow> setValue P pr a (h, w) =
          (h, log ((if IS_SERVER w then [WarnNotClient (key pr)] else [])
                      @ snd (resolve P pr a w) @ [WarnSetting (key pr) e]) w))
   \<and> (fst (setValue P pr a (h, w)) \<noteq> h \<or> window (snd (setValue P pr a (h, w))) \<noteq> window w
    \<longrightarrow> (\<exists>v win enc store. fst (resolve P pr a w) = Inr v \<and> window w = Some win
            \<and> sessionStorage_throws win = None
            \<and> serializer P (options pr) v = Inr enc
            \<and> setItem (sessionStorage win) (key pr) enc = Inr store
            \<and> window (snd (setValue P pr a (h, w))) =
                Some (win\<lparr>sessionStorage := store,
                          dispatched := dispatched win
                            @ [StorageEvent ''session-storage'' (Some (key pr))]\<rparr>)
            \<and> fst (setValue P pr a (h, w)) =
                h\<lparr>storedValue :=
                    (case fst (readValue P pr (snd (setValue P pr a (h, w)))) of
                       Inl x \<Rightarrow> v
                     | Inr r \<Rightarrow> r)\<rparr>))"
proof (intro conjI impI)
  assume "fst (resolve P pr a w) = Inl e
      \<or> (\<exists>v win. fst (resolve P pr a w) = Inr v \<and> window w = Some win
            \<and> sessionStorage_throws win = Some e)
      \<or> (\<exists>v win. fst (resolve P pr a w) = Inr v \<and> window w = Some win
            \<and> sessionStorage_throws win = None
            \<and> serializer P (options pr) v = Inl e)
      \<or> (\<exists>v win enc. fst (resolve P pr a w) = Inr v \<and> window w = Some win
            \<and> sessionStorage_throws win = None
            \<and> serializer P (options pr) v = Inr enc
            \<and> setItem (sessionStorage win) (key pr) enc = Inl e)"
  then have "fst (resolve P pr a w) = Inl e
             \<or> (\<exists>v. fst (resolve P pr a w) = Inr v \<and> save P pr v w = Inl e)"
    unfolding save_cases by blast
  then show "setValue P pr a (h, w) =
          (h, log ((if IS_SERVER w then [WarnNotClient (key pr)] else [])
                      @ snd (resolve P pr a w) @ [WarnSetting (key pr) e]) w)"
    by (rule setValue_throws)
next
  assume changed: "fst (setValue P pr a (h, w)) \<noteq> h
                     \<or> window (snd (setValue P pr a (h, w))) \<noteq> window w"
  show "\<exists>v win enc store. fst (resolve P pr a w) = Inr v \<and> window w = Some win
            \<and> sessionStorage_throws win = None
            \<and> serializer P (options pr) v = Inr enc
            \<and> setItem (sessionStorage win) (key pr) enc = Inr store
            \<and> window (snd (setValue P pr a (h, w))) =
                Some (win\<lparr>sessionStorage := store,
                          dispatched := dispatched win
                            @ [StorageEvent ''session-storage'' (Some (key pr))]\<rparr>)
            \<and> fst (setValue P pr a (h, w)) =
                h\<lparr>storedValue :=
                    (case fst (readValue P pr (snd (setValue P pr a (h, w)))) of
                       Inl x \<Rightarrow> v
                     | Inr r \<Rightarrow> r)\<rparr>"
  proof (cases "fst (resolve P pr a w)")
    case (Inl e')
    then have "setValue P pr a (h, w) =
          (h, log ((if IS_SERVER w then [WarnNotClient (key pr)] else [])
                      @ snd (resolve P pr a w) @ [WarnSetting (key pr) e']) w)"
      by (intro setValue_throws) simp
    with changed show ?thesis by simp
  next
    case resolved: (Inr v)
    show ?thesis
    proof (cases "save P pr v w")
      case (Inl e')
      with resolved have "setValue P pr a (h, w) =
          (h, log ((if IS_SERVER w then [WarnNotClient (key pr)] else [])
                      @ snd (resolve P pr a w) @ [WarnSetting (key pr) e']) w)"
        by (intro setValue_throws) simp
      with changed show ?thesis by simp
    next
      case saved: (Inr win')
      from saved obtain win enc store where parts:
        "window w = Some win" "sessionStorage_throws win = None"
        "serializer P (options pr) v = Inr enc"
        "setItem (sessionStorage win) (key pr) enc = Inr store"
        "win' = win\<lparr>sessionStorage := store\<rparr>"
        by (auto simp: save_def split: option.splits sum.splits)
      have "window (snd (setValue P pr a (h, w))) =
                Some (win\<lparr>sessionStorage := store,
                          dispatched := dispatched win
                            @ [StorageEvent ''session-storage'' (Some (key pr))]\<rparr>)"
        using window_after_setValue [OF resolved saved, of h] parts(5) by simp
      with resolved parts(1-4) state_after_setValue [OF resolved saved, of h]
      show ?thesis by blast
    qed
  qed
qed

text \<open>
  A write of 5 to a store whose quota is exhausted; a write with an updater that
  throws; a write of 5, which the text codec cannot encode, where access to the
  storage is denied: the denial is what is logged. Each time the state is still 0
  and the window is the same.
\<close>

theorem setValue_failure_atomic_witness:
  "setItem full_store ''count'' (Some ''5'') = Inl QuotaExceededError
   \<and> setValue ecma (count_props default_options) (SetLiteral (JNum 5))
        (\<lparr>storedValue = JNum 0\<rparr>, browser full_store)
      = (\<lparr>storedValue = JNum 0\<rparr>,
         log [WarnSetting ''count'' QuotaExceededError] (browser full_store))
   \<and> setValue ecma (count_props default_options) (SetUpdater (\<lambda>v. Inl (Thrown ''no'')))
        (\<lparr>storedValue = JNum 0\<rparr>, browser empty_store)
      = (\<lparr>storedValue = JNum 0\<rparr>,
         log [WarnSetting ''count'' (Thrown ''no'')] (browser empty_store))
   \<and> serializer ecma text_options (JNum 5) = Inl TypeError
   \<and> setValue ecma (count_props text_options) (SetLiteral (JNum 5))
        (\<lparr>storedValue = JNum 0\<rparr>, denied_browser)
      = (\<lparr>storedValue = JNum 0\<rparr>,
         log [WarnSetting ''count'' SecurityError] denied_browser)"
proof -
  let ?pr = "count_props default_options"
  have win: "window (browser full_store) = Some (tab full_store)"
    "sessionStorage_throws (tab full_store) = None"
    "sessionStorage (tab full_store) = full_store"
    by (simp_all add: browser_def tab_def)
  have enc: "serializer ecma (options ?pr) (JNum 5) = Inr (Some ''5'')"
    by code_simp
  have quota: "setItem full_store ''count'' (Some ''5'') = Inl QuotaExceededError"
    by (simp add: setItem_def full_store_def empty_store_def)
  have upd: "resolve ecma ?pr (SetUpdater (\<lambda>v. Inl (Thrown ''no''))) (browser empty_store)
               = (Inl (Thrown ''no''), [])"
    by (simp add: resolve_def readValue_def readValue_try_def sessionStorage_getItem_def
        window_sessionStorage_def getItem_def browser_def tab_def empty_store_def count_props_def)
  have denied: "window denied_browser
                  = Some ((tab empty_store)\<lparr>sessionStorage_throws := Some SecurityError\<rparr>)"
    by (simp add: denied_browser_def)
  have bad: "serializer ecma text_options (JNum 5) = Inl TypeError"
    by (simp add: serializer_def text_options_def)
  show ?thesis
    using setValue_failure_atomic [of ecma ?pr "SetLiteral (JNum 5)" "browser full_store"
        QuotaExceededError "\<lparr>storedValue = JNum 0\<rparr>"]
      setValue_failure_atomic [of ecma ?pr "SetUpdater (\<lambda>v. Inl (Thrown ''no''))"
        "browser empty_store" "Thrown ''no''" "\<lparr>storedValue = JNum 0\<rparr>"]
      setValue_failure_atomic [of ecma "count_props text_options" "SetLiteral (JNum 5)"
        denied_browser SecurityError "\<lparr>storedValue = JNum 0\<rparr>"]
      win enc quota upd denied bad
    by (simp add: count_props_def browser_def denied_browser_def)
qed

text \<open>
  Claim C3, as the code has it. When \<^verbatim>\<open>window\<close> is not defined, \<open>setValue\<close> of a value
  \<open>v\<close> leaves the hook's state as it was and the window undefined: nothing is
  stored, no event is dispatched. It logs the not-a-client warning if \<^verbatim>\<open>IS_SERVER\<close>
  is set, then the warning of the \<^verbatim>\<open>catch\<close> clause with the \<^verbatim>\<open>ReferenceError\<close> of line
  134. For any argument, a value or an updater, state and window are unchanged and
  the last message is the warning of the \<^verbatim>\<open>catch\<close> clause. (The claim as written, that
  the state is updated and the event dispatched all the same, fails.)
\<close>

theorem setValue_without_window:
  assumes "window w = None"
  shows "setValue P pr (SetLiteral v) (h, w) =
           (h, log ((if IS_SERVER w then [WarnNotClient (key pr)] else [])
                     @ [WarnSetting (key pr) ReferenceError]) w)
       \<and> (\<exists>e. setValue P pr a (h, w) =
           (h, log ((if IS_SERVER w then [WarnNotClient (key pr)] else [])
                     @ snd (resolve P pr a w) @ [WarnSetting (key pr) e]) w))"
proof
  have "save P pr v w = Inl ReferenceError"
    using assms by (simp add: save_def)
  then show "setValue P pr (SetLiteral v) (h, w) =
           (h, log ((if IS_SERVER w then [WarnNotClient (key pr)] else [])
                     @ [WarnSetting (key pr) ReferenceError]) w)"
    using setValue_throws [of P pr "SetLiteral v" w ReferenceError h]
    by simp
next
  show "\<exists>e. setValue P pr a (h, w) =
           (h, log ((if IS_SERVER w then [WarnNotClient (key pr)] else [])
                     @ snd (resolve P pr a w) @ [WarnSetting (key pr) e]) w)"
  proof (cases "fst (resolve P pr a w)")
    case (Inl e)
    then show ?thesis
      using setValue_throws [of P pr a w e h] by blast
  next
    case (Inr v')
    moreover have "save P pr v' w = Inl ReferenceError"
      using assms by (simp add: save_def)
    ultimately show ?thesis
      using setValue_throws [of P pr a w ReferenceError h] by blast
  qed
qed

theorem setValue_without_window_witness:
  "window server = None
   \<and> setValue ecma (count_props default_options) (SetLiteral (JNum 5)) (\<lparr>storedValue = JNum 0\<rparr>, server)
       = (\<lparr>storedValue = JNum 0\<rparr>,
          log [WarnNotClient ''count'', WarnSetting ''count'' ReferenceError] server)"
proof -
  have h: "window server = None"
    by (simp add: server_def)
  show ?thesis
    using h setValue_without_window [OF h, of ecma "count_props default_options" "JNum 5"
        "\<lparr>storedValue = JNum 0\<rparr>" "SetLiteral (JNum 5)"]
    by (simp add: server_def count_props_def)
qed

text \<open>
  On the server a write of 5 leaves the state at 0; there is no window to dispatch
  an event on; the console holds the two warnings.
\<close>

theorem setValue_on_server_counterexample:
  "IS_SERVER server \<and> window server = None
   \<and> storedValue (fst (setValue ecma (count_props default_options) (SetLiteral (JNum 5))
        (\<lparr>storedValue = JNum 0\<rparr>, server))) = JNum 0
   \<and> JNum 0 \<noteq> JNum 5
   \<and> window (snd (setValue ecma (count_props default_options) (SetLiteral (JNum 5))
        (\<lparr>storedValue = JNum 0\<rparr>, server))) = None
   \<and> console (snd (setValue ecma (count_props default_options) (SetLiteral (JNum 5))
        (\<lparr>storedValue = JNum 0\<rparr>, server)))
       = [WarnNotClient ''count'', WarnSetting ''count'' ReferenceError]"
  by code_simp

subsection \<open>Reading\<close>

text \<open>
  Claim C4, as the code has it. When the evaluation of \<^verbatim>\<open>initialValue\<close> returns,
  \<open>readValue\<close> returns a value in every world: its \<^verbatim>\<open>catch\<close> clause turns every
  exception of the \<^verbatim>\<open>try\<close> block into a return. On the server, when \<^verbatim>\<open>window\<close> is
  missing, when \<^verbatim>\<open>getItem\<close> throws, when the key is absent, when a custom deserializer
  throws, and when \<^verbatim>\<open>JSON.parse\<close> throws under the default codec, the value returned
  is that evaluation of \<^verbatim>\<open>initialValue\<close>. The value returned is of a type \<open>T\<close> when
  the initial value is and \<open>deserializer\<close> returns values of \<open>T\<close> for the stored text.
  (The claim as written fails twice: lines 102 and 103 call the producer outside the
  \<^verbatim>\<open>try\<close> block, so what the producer throws, \<open>readValue\<close> throws; and line 94 casts
  what \<^verbatim>\<open>JSON.parse\<close> returns to \<open>T\<close> without a check.)
\<close>

theorem readValue_returns:
  assumes "eval_initial (initialValue pr) = Inr init"
  shows "(\<exists>v. fst (readValue P pr w) = Inr v)
       \<and> (IS_SERVER w
           \<or> window w = None
           \<or> (\<exists>e. sessionStorage_getItem w (key pr) = Inl e)
           \<or> sessionStorage_getItem w (key pr) = Inr None
           \<or> (\<exists>s e. sessionStorage_getItem w (key pr) = Inr (Some s)
                 \<and> (fst (deserializer P pr s) = Inl e
                      \<or> opt_deserializer (options pr) = None \<and> s \<noteq> ''undefined''
                          \<and> JSON_parse P s = Inl e))
          \<longrightarrow> fst (readValue P pr w) = Inr init)
       \<and> (T init
           \<and> (\<forall>s v. sessionStorage_getItem w (key pr) = Inr (Some s)
                  \<and> fst (deserializer P pr s) = Inr v \<longrightarrow> T v)
          \<longrightarrow> (\<forall>v. fst (readValue P pr w) = Inr v \<longrightarrow> T v))"
proof (intro conjI impI)
  show "\<exists>v. fst (readValue P pr w) = Inr v"
    by (simp add: readValue_cases [OF assms])
next
  assume fails: "IS_SERVER w
           \<or> window w = None
           \<or> (\<exists>e. sessionStorage_getItem w (key pr) = Inl e)
           \<or> sessionStorage_getItem w (key pr) = Inr None
           \<or> (\<exists>s e. sessionStorage_getItem w (key pr) = Inr (Some s)
                 \<and> (fst (deserializer P pr s) = Inl e
                      \<or> opt_deserializer (options pr) = None \<and> s \<noteq> ''undefined''
                          \<and> JSON_parse P s = Inl e))"
  have "window w = None \<Longrightarrow> sessionStorage_getItem w (key pr) = Inl ReferenceError"
    by (simp add: sessionStorage_getItem_def window_sessionStorage_def)
  with fails show "fst (readValue P pr w) = Inr init"
    by (auto simp: readValue_cases [OF assms] deserializer_parse_error [OF _ _ assms])
next
  assume typed: "T init
           \<and> (\<forall>s v. sessionStorage_getItem w (key pr) = Inr (Some s)
                  \<and> fst (deserializer P pr s) = Inr v \<longrightarrow> T v)"
  show "\<forall>v. fst (readValue P pr w) = Inr v \<longrightarrow> T v"
    using typed
    by (auto simp: readValue_cases [OF assms] split: sum.splits option.splits if_splits)
qed

text \<open>
  A hook whose producer returns 3: with text in the store that is not JSON the read
  returns 3; with the text 7 it returns 7, a number as the initial value is.
\<close>

theorem readValue_returns_witness:
  "eval_initial (initialValue produced_props) = Inr (JNum 3)
   \<and> JSON_parse ecma ''{oops'' = Inl SyntaxError
   \<and> readValue ecma produced_props (browser (store_with ''count'' ''{oops''))
       = (Inr (JNum 3), [ErrorParsingJSON SyntaxError])
   \<and> fst (readValue ecma produced_props (browser (store_with ''count'' ''7''))) = Inr (JNum 7)
   \<and> is_number (JNum 7)"
proof -
  let ?w = "browser (store_with ''count'' ''{oops'')"
  let ?w7 = "browser (store_with ''count'' ''7'')"
  let ?pr = "produced_props"
  have init: "eval_initial (initialValue ?pr) = Inr (JNum 3)"
    by (simp add: produced_props_def)
  have raw: "sessionStorage_getItem ?w (key ?pr) = Inr (Some ''{oops'')"
    by (simp add: sessionStorage_getItem_def window_sessionStorage_def getItem_def browser_def
        tab_def store_with_def empty_store_def produced_props_def)
  have bad: "JSON_parse ecma ''{oops'' = Inl SyntaxError"
    by code_simp
  have dflt: "opt_deserializer (options ?pr) = None"
    by (simp add: produced_props_def default_options_def)
  note facts = readValue_returns [OF init, of ecma _ is_number]
  have "fst (readValue ecma ?pr ?w) = Inr (JNum 3)"
    using facts [of ?w] raw bad dflt by auto
  moreover have "snd (readValue ecma ?pr ?w) = [ErrorParsingJSON SyntaxError]"
    by code_simp
  moreover have seven: "fst (readValue ecma ?pr ?w7) = Inr (JNum 7)"
    by code_simp
  moreover have "is_number (JNum 7)"
  proof -
    have "sessionStorage_getItem ?w7 (key ?pr) = Inr (Some ''7'')"
      by (simp add: sessionStorage_getItem_def window_sessionStorage_def getItem_def browser_def
          tab_def store_with_def empty_store_def produced_props_def)
    moreover have "fst (deserializer ecma ?pr ''7'') = Inr (JNum 7)"
      by code_simp
    ultimately have "\<forall>v. fst (readValue ecma ?pr ?w7) = Inr v \<longrightarrow> is_number v"
      using facts [of ?w7] by auto
    with seven show ?thesis by blast
  qed
  ultimately show ?thesis
    using init bad by (simp add: prod_eq_iff)
qed

text \<open>
  A hook whose producer throws: the read throws the same. A hook for a number with
  initial value 0, and the JSON text of the string \<^verbatim>\<open>abc\<close> in the store: the read
  returns that string, which is no number.
\<close>

theorem readValue_counterexample:
  "readValue ecma throwing_props (browser (store_with ''count'' ''7''))
     = (Inl (Thrown ''no initial value''), [])
   \<and> eval_initial (initialValue (count_props default_options)) = Inr (JNum 0)
   \<and> is_number (JNum 0)
   \<and> fst (readValue ecma (count_props default_options)
        (browser (store_with ''count'' ''\"abc\"''))) = Inr (JStr ''abc'')
   \<and> \<not> is_number (JStr ''abc'')"
  by code_simp

subsection \<open>The codec\<close>

text \<open>
  Claim C8. Without a custom serializer, a Map is encoded as \<^verbatim>\<open>JSON.stringify\<close> of
  \<^verbatim>\<open>Object.fromEntries\<close> of the Map, a Set as \<^verbatim>\<open>JSON.stringify\<close> of \<^verbatim>\<open>Array.from\<close> of the
  Set, and any other value as \<^verbatim>\<open>JSON.stringify\<close> of the value itself.
\<close>

theorem default_serializer:
  assumes "opt_serializer opts = None"
  shows "serializer P opts (JMap entries) = JSON_stringify P (Object_fromEntries P entries)
       \<and> serializer P opts (JSet elems) = JSON_stringify P (Array_from P elems)
       \<and> ((\<forall>m. v \<noteq> JMap m) \<and> (\<forall>s. v \<noteq> JSet s)
            \<longrightarrow> serializer P opts v = JSON_stringify P v)"
  using assms by (cases v) (simp_all add: serializer_def)

theorem default_serializer_witness:
  "opt_serializer default_options = None
   \<and> serializer ecma default_options (JMap [(JStr ''a'', JNum 1), (JStr ''b'', JBool True)])
        = Inr (Some ''{\"a\":1,\"b\":true}'')
   \<and> serializer ecma default_options (JSet [JNum 1, JStr ''x''])
        = Inr (Some ''[1,\"x\"]'')
   \<and> serializer ecma default_options (JObj [(''n'', JNull)])
        = Inr (Some ''{\"n\":null}'')"
proof -
  have h: "opt_serializer default_options = None"
    by (simp add: default_options_def)
  have "JSON_stringify ecma (Object_fromEntries ecma [(JStr ''a'', JNum 1), (JStr ''b'', JBool True)])
          = Inr (Some ''{\"a\":1,\"b\":true}'')"
    by code_simp
  moreover have "JSON_stringify ecma (Array_from ecma [JNum 1, JStr ''x''])
          = Inr (Some ''[1,\"x\"]'')"
    by code_simp
  moreover have "JSON_stringify ecma (JObj [(''n'', JNull)]) = Inr (Some ''{\"n\":null}'')"
    by code_simp
  ultimately show ?thesis
    using h default_serializer [OF h, of ecma "[(JStr ''a'', JNum 1), (JStr ''b'', JBool True)]"
        "[JNum 1, JStr ''x'']" "JObj [(''n'', JNull)]"]
    by simp
qed

text \<open>
  Claim C10. With a custom deserializer, the stored text \<^verbatim>\<open>undefined\<close> is handed to
  that deserializer like any other text; only without one does \<open>deserializer\<close>
  return \<^verbatim>\<open>undefined\<close> for it.
\<close>

theorem custom_deserializer_sees_undefined:
  "(opt_deserializer (options pr) = Some f
      \<longrightarrow> deserializer P pr ''undefined'' = (f ''undefined'', []))
   \<and> (opt_deserializer (options pr) = None
      \<longrightarrow> deserializer P pr ''undefined'' = (Inr JUndefined, []))"
  by (simp add: deserializer_def)

theorem custom_deserializer_sees_undefined_witness:
  "opt_deserializer (options (count_props text_options)) = Some (\<lambda>s. Inr (JStr s))
   \<and> deserializer ecma (count_props text_options) ''undefined'' = (Inr (JStr ''undefined''), [])
   \<and> opt_deserializer (options (count_props default_options)) = None
   \<and> deserializer ecma (count_props default_options) ''undefined'' = (Inr JUndefined, [])"
  using custom_deserializer_sees_undefined [of "count_props text_options" "\<lambda>s. Inr (JStr s)" ecma]
    custom_deserializer_sees_undefined [of "count_props default_options" undefined ecma]
  by (simp add: count_props_def text_options_def default_options_def)

text \<open>
  Claim C5. Under the default codec, \<^verbatim>\<open>JSON.stringify(undefined)\<close> returning
  \<^verbatim>\<open>undefined\<close>, a write of \<^verbatim>\<open>undefined\<close> that succeeds stores the text \<^verbatim>\<open>undefined\<close>,
  and the next read returns \<^verbatim>\<open>undefined\<close> and logs nothing, whatever \<^verbatim>\<open>JSON.parse\<close> is:
  it is not called. (The read evaluates \<^verbatim>\<open>initialValue\<close> first, at line 102, and
  throws what that throws.)
\<close>

theorem undefined_roundtrip:
  assumes "opt_serializer (options pr) = None" and "opt_deserializer (options pr) = None"
    and "JSON_stringify P JUndefined = Inr None"
    and "\<not> IS_SERVER w" and "window w = Some win" and "sessionStorage_throws win = None"
    and "setItem_throws (sessionStorage win) (key pr) ''undefined'' = None"
    and "getItem_throws (sessionStorage win) (key pr) = None"
  shows "sessionStorage_getItem (snd (setValue P pr (SetLiteral JUndefined) (h, w))) (key pr)
           = Inr (Some ''undefined'')
       \<and> (\<forall>parse. readValue (P\<lparr>JSON_parse := parse\<rparr>) pr
             (snd (setValue P pr (SetLiteral JUndefined) (h, w)))
           = (case eval_initial (initialValue pr) of
                Inl e \<Rightarrow> (Inl e, [])
              | Inr init \<Rightarrow> (Inr JUndefined, [])))"
proof -
  have enc: "serializer P (options pr) JUndefined = Inr None"
    using assms(1,3) by (simp add: serializer_def)
  have thr: "setItem_throws (sessionStorage win) (key pr) (DOMString None) = None"
    using assms(7) by (simp add: DOMString_def)
  have res: "fst (resolve P pr (SetLiteral JUndefined) w) = Inr JUndefined"
    by simp
  have raw: "sessionStorage_getItem (snd (setValue P pr (SetLiteral JUndefined) (h, w))) (key pr)
               = Inr (Some ''undefined'')"
    using getItem_after_setValue [OF res assms(5,6) enc thr assms(8), of h]
    by (simp add: DOMString_def)
  moreover have "readValue (P\<lparr>JSON_parse := parse\<rparr>) pr
             (snd (setValue P pr (SetLiteral JUndefined) (h, w)))
           = (case eval_initial (initialValue pr) of
                Inl e \<Rightarrow> (Inl e, [])
              | Inr init \<Rightarrow> (Inr JUndefined, []))" for parse
    using raw assms(2,4)
    by (simp add: readValue_def readValue_try_def deserializer_def IS_SERVER_setValue
        split: sum.splits)
  ultimately show ?thesis by blast
qed

text \<open>The witness reads with a \<^verbatim>\<open>JSON.parse\<close> that always throws.\<close>

theorem undefined_roundtrip_witness:
  "JSON_stringify ecma JUndefined = Inr None
   \<and> sessionStorage_getItem
        (snd (setValue ecma (count_props default_options) (SetLiteral JUndefined)
           (\<lparr>storedValue = JNum 0\<rparr>, browser empty_store))) ''count'' = Inr (Some ''undefined'')
   \<and> readValue (ecma\<lparr>JSON_parse := (\<lambda>s. Inl SyntaxError)\<rparr>) (count_props default_options)
        (snd (setValue ecma (count_props default_options) (SetLiteral JUndefined)
           (\<lparr>storedValue = JNum 0\<rparr>, browser empty_store))) = (Inr JUndefined, [])"
proof -
  have s: "JSON_stringify ecma JUndefined = Inr None"
    by (simp add: ecma_def)
  show ?thesis
    using s undefined_roundtrip [of "count_props default_options" ecma "browser empty_store"
        "tab empty_store" "\<lparr>storedValue = JNum 0\<rparr>"]
    by (simp add: count_props_def default_options_def browser_def tab_def empty_store_def)
qed

subsection \<open>Reading after writing\<close>

text \<open>
  Claim C1, as the code has it. A write of \<open>v\<close> succeeds in a browser: \<^verbatim>\<open>window\<close> and
  its storage are there, the serializer returns a text that is not empty, \<^verbatim>\<open>setItem\<close>
  returns; and \<^verbatim>\<open>getItem\<close> does not throw. Then the next read evaluates
  \<^verbatim>\<open>initialValue\<close> (and throws what that throws) and returns what \<open>deserializer\<close> makes
  of the stored text, or the initial value if \<open>deserializer\<close> throws. So the read
  returns \<open>v\<close> whenever \<open>deserializer\<close> maps the stored text back to \<open>v\<close>. (The claim
  as written, for every value and with Maps and Sets under the default codec, fails:
  the default \<open>deserializer\<close> returns what \<^verbatim>\<open>JSON.parse\<close> returns, which for the text
  of a Map is a plain object.)
\<close>

theorem write_then_read:
  assumes "\<not> IS_SERVER w" and "window w = Some win" and "sessionStorage_throws win = None"
    and "serializer P (options pr) v = Inr enc"
    and "setItem_throws (sessionStorage win) (key pr) (DOMString enc) = None"
    and "getItem_throws (sessionStorage win) (key pr) = None"
    and "DOMString enc \<noteq> []"
  shows "fst (readValue P pr (snd (setValue P pr (SetLiteral v) (h, w)))) =
           (case eval_initial (initialValue pr) of
              Inl e \<Rightarrow> Inl e
            | Inr init \<Rightarrow>
                (case fst (deserializer P pr (DOMString enc)) of
                   Inl e \<Rightarrow> Inr init
                 | Inr v' \<Rightarrow> Inr v'))
       \<and> (eval_initial (initialValue pr) = Inr init
            \<and> fst (deserializer P pr (DOMString enc)) = Inr v
          \<longrightarrow> fst (readValue P pr (snd (setValue P pr (SetLiteral v) (h, w)))) = Inr v)"
proof -
  have res: "fst (resolve P pr (SetLiteral v) w) = Inr v"
    by simp
  note raw = getItem_after_setValue [OF res assms(2-6), of h]
  have first: "fst (readValue P pr (snd (setValue P pr (SetLiteral v) (h, w)))) =
           (case eval_initial (initialValue pr) of
              Inl e \<Rightarrow> Inl e
            | Inr init \<Rightarrow>
                (case fst (deserializer P pr (DOMString enc)) of
                   Inl e \<Rightarrow> Inr init
                 | Inr v' \<Rightarrow> Inr v'))"
  proof (cases "eval_initial (initialValue pr)")
    case (Inl e)
    then show ?thesis by (simp add: readValue_throws)
  next
    case (Inr i)
    with raw assms(1,7) show ?thesis
      by (simp add: readValue_cases [OF Inr] IS_SERVER_setValue split: sum.splits)
  qed
  then show ?thesis by simp
qed

text \<open>The number 42 under the default codec comes back.\<close>

theorem write_then_read_witness:
  "fst (readValue ecma (count_props default_options)
      (snd (setValue ecma (count_props default_options) (SetLiteral (JNum 42))
             (\<lparr>storedValue = JNum 0\<rparr>, browser empty_store)))) = Inr (JNum 42)"
proof -
  let ?pr = "count_props default_options"
  have enc: "serializer ecma (options ?pr) (JNum 42) = Inr (Some ''42'')"
    by code_simp
  have dec: "fst (deserializer ecma ?pr ''42'') = Inr (JNum 42)"
    by code_simp
  have init: "eval_initial (initialValue ?pr) = Inr (JNum 0)"
    by (simp add: count_props_def)
  have rest: "\<not> IS_SERVER (browser empty_store)
      \<and> window (browser empty_store) = Some (tab empty_store)
      \<and> sessionStorage_throws (tab empty_store) = None
      \<and> setItem_throws (sessionStorage (tab empty_store)) (key ?pr) (DOMString (Some ''42'')) = None
      \<and> getItem_throws (sessionStorage (tab empty_store)) (key ?pr) = None
      \<and> DOMString (Some ''42'') \<noteq> []"
    by (simp add: browser_def tab_def empty_store_def DOMString_def)
  have dec': "fst (deserializer ecma ?pr (DOMString (Some ''42''))) = Inr (JNum 42)"
    using dec by (simp add: DOMString_def)
  from rest enc have "eval_initial (initialValue ?pr) = Inr (JNum 0)
        \<and> fst (deserializer ecma ?pr (DOMString (Some ''42''))) = Inr (JNum 42)
      \<longrightarrow> fst (readValue ecma ?pr (snd (setValue ecma ?pr (SetLiteral (JNum 42))
             (\<lparr>storedValue = JNum 0\<rparr>, browser empty_store)))) = Inr (JNum 42)"
    by (intro write_then_read [THEN conjunct2]) blast+
  with init dec' show ?thesis by blast
qed

text \<open>
  A hook rendered with the initial value \<^verbatim>\<open>null\<close> writes a Map with the entry \<^verbatim>\<open>a\<close>
  to 1 under the default codec: the write succeeds, the store holds the text of the
  object, and the read returns the plain object, which is not the Map; the hook's
  state is that object too.
\<close>

theorem write_then_read_Map_counterexample:
  "useState tags_props = Inr \<lparr>storedValue = JNull\<rparr>
   \<and> sessionStorage_getItem (snd (setValue ecma tags_props (SetLiteral (JMap [(JStr ''a'', JNum 1)]))
       (\<lparr>storedValue = JNull\<rparr>, browser empty_store))) ''tags'' = Inr (Some ''{\"a\":1}'')
   \<and> fst (readValue ecma tags_props
       (snd (setValue ecma tags_props (SetLiteral (JMap [(JStr ''a'', JNum 1)]))
          (\<lparr>storedValue = JNull\<rparr>, browser empty_store)))) = Inr (JObj [(''a'', JNum 1)])
   \<and> JObj [(''a'', JNum 1)] \<noteq> JMap [(JStr ''a'', JNum 1)]
   \<and> storedValue (fst (setValue ecma tags_props (SetLiteral (JMap [(JStr ''a'', JNum 1)]))
       (\<lparr>storedValue = JNull\<rparr>, browser empty_store))) = JObj [(''a'', JNum 1)]"
  by code_simp

text \<open>
  Claim C9, as the code has it. Two writes of the same value \<open>v\<close> in a row, the first
  of which succeeds. The store after the second write is the store after the first;
  the first write dispatches one event and the second one more; a read after the
  second returns what a read after the first returns, and that is \<open>v\<close> when the
  stored text is not empty, \<^verbatim>\<open>initialValue\<close> evaluates and \<open>deserializer\<close> maps the
  text back to \<open>v\<close>. (The claim as written, that the read returns \<open>v\<close> for every
  value, fails.)
\<close>

theorem setValue_twice:
  assumes "window w = Some win" and "sessionStorage_throws win = None"
    and "serializer P (options pr) v = Inr enc"
    and "setItem_throws (sessionStorage win) (key pr) (DOMString enc) = None"
  shows "map_option sessionStorage
           (window (snd (setValue P pr (SetLiteral v) (setValue P pr (SetLiteral v) (h, w)))))
         = map_option sessionStorage (window (snd (setValue P pr (SetLiteral v) (h, w))))
       \<and> map_option dispatched (window (snd (setValue P pr (SetLiteral v) (h, w))))
         = Some (dispatched win @ [StorageEvent ''session-storage'' (Some (key pr))])
       \<and> map_option dispatched
           (window (snd (setValue P pr (SetLiteral v) (setValue P pr (SetLiteral v) (h, w)))))
         = Some (dispatched win @ [StorageEvent ''session-storage'' (Some (key pr)),
                                   StorageEvent ''session-storage'' (Some (key pr))])
       \<and> readValue P pr (snd (setValue P pr (SetLiteral v) (setValue P pr (SetLiteral v) (h, w))))
         = readValue P pr (snd (setValue P pr (SetLiteral v) (h, w)))
       \<and> (\<not> IS_SERVER w \<and> getItem_throws (sessionStorage win) (key pr) = None
            \<and> DOMString enc \<noteq> [] \<and> eval_initial (initialValue pr) = Inr init
            \<and> fst (deserializer P pr (DOMString enc)) = Inr v
          \<longrightarrow> fst (readValue P pr
                 (snd (setValue P pr (SetLiteral v) (setValue P pr (SetLiteral v) (h, w)))))
              = Inr v)"
proof -
  let ?ev = "StorageEvent ''session-storage'' (Some (key pr))"
  let ?store = "(sessionStorage win)\<lparr>items := (items (sessionStorage win))(key pr \<mapsto> DOMString enc)\<rparr>"
  let ?win1 = "win\<lparr>sessionStorage := ?store\<rparr>"
  let ?win1' = "?win1\<lparr>dispatched := dispatched ?win1 @ [?ev]\<rparr>"
  obtain h1 w1 where first: "setValue P pr (SetLiteral v) (h, w) = (h1, w1)"
    by (cases "setValue P pr (SetLiteral v) (h, w)")
  have res: "fst (resolve P pr (SetLiteral v) w0) = Inr v" for w0
    by simp
  have saved: "save P pr v w = Inr ?win1"
    using assms by (rule save_returns)
  have win1: "window w1 = Some ?win1'"
    using window_after_setValue [OF res saved, of h] first by simp
  have srv1: "IS_SERVER w1 = IS_SERVER w"
    using IS_SERVER_setValue [of P pr "SetLiteral v" h w] first by simp
  have read1: "readValue P pr w1 = readValue P pr (w\<lparr>window := Some ?win1\<rparr>)"
    using readValue_after_setValue [OF res saved, of P pr h] first by simp
  have saved2: "save P pr v w1 = Inr (?win1'\<lparr>sessionStorage := ?store\<rparr>)"
    using save_returns [of w1 ?win1' P pr v enc] win1 assms by simp
  have win2: "window (snd (setValue P pr (SetLiteral v) (h1, w1)))
                = Some (?win1'\<lparr>sessionStorage := ?store, dispatched := dispatched ?win1' @ [?ev]\<rparr>)"
    using window_after_setValue [OF res saved2, of h1] by simp
  have read2: "readValue P pr (snd (setValue P pr (SetLiteral v) (h1, w1)))
                = readValue P pr (w1\<lparr>window := Some (?win1'\<lparr>sessionStorage := ?store\<rparr>)\<rparr>)"
    using readValue_after_setValue [OF res saved2, of P pr h1] by simp
  have same: "readValue P pr (snd (setValue P pr (SetLiteral v) (h1, w1))) = readValue P pr w1"
    unfolding read2 read1
    using srv1 assms(2) by (intro readValue_cong) (simp_all add: window_sessionStorage_def)
  have once: "\<not> IS_SERVER w \<and> getItem_throws (sessionStorage win) (key pr) = None
            \<and> DOMString enc \<noteq> [] \<and> eval_initial (initialValue pr) = Inr init
            \<and> fst (deserializer P pr (DOMString enc)) = Inr v
          \<longrightarrow> fst (readValue P pr w1) = Inr v"
  proof
    assume a: "\<not> IS_SERVER w \<and> getItem_throws (sessionStorage win) (key pr) = None
            \<and> DOMString enc \<noteq> [] \<and> eval_initial (initialValue pr) = Inr init
            \<and> fst (deserializer P pr (DOMString enc)) = Inr v"
    then have init: "eval_initial (initialValue pr) = Inr init"
      by simp
    have "sessionStorage_getItem w1 (key pr) = Inr (Some (DOMString enc))"
      using win1 assms(2) a
      by (simp add: sessionStorage_getItem_def window_sessionStorage_def getItem_def)
    with a srv1 show "fst (readValue P pr w1) = Inr v"
      by (simp add: readValue_cases [OF init])
  qed
  have store: "map_option sessionStorage (window (snd (setValue P pr (SetLiteral v) (h1, w1))))
         = map_option sessionStorage (window w1)"
    unfolding win2 win1 by simp
  have ev1: "map_option dispatched (window w1) = Some (dispatched win @ [?ev])"
    unfolding win1 by simp
  have ev2: "map_option dispatched (window (snd (setValue P pr (SetLiteral v) (h1, w1))))
         = Some (dispatched win @ [?ev, ?ev])"
    unfolding win2 by simp
  from store ev1 ev2 same once show ?thesis
    unfolding first by simp
qed

theorem setValue_twice_witness:
  "fst (readValue ecma (count_props default_options)
      (snd (setValue ecma (count_props default_options) (SetLiteral (JNum 42))
        (setValue ecma (count_props default_options) (SetLiteral (JNum 42))
             (\<lparr>storedValue = JNum 0\<rparr>, browser empty_store))))) = Inr (JNum 42)
   \<and> map_option dispatched (window
      (snd (setValue ecma (count_props default_options) (SetLiteral (JNum 42))
        (setValue ecma (count_props default_options) (SetLiteral (JNum 42))
             (\<lparr>storedValue = JNum 0\<rparr>, browser empty_store)))))
      = Some [StorageEvent ''session-storage'' (Some ''count''),
              StorageEvent ''session-storage'' (Some ''count'')]"
proof -
  let ?pr = "count_props default_options"
  let ?win = "tab empty_store"
  have win: "window (browser empty_store) = Some ?win"
    by (simp add: browser_def)
  have open_: "sessionStorage_throws ?win = None"
    by (simp add: tab_def)
  have enc: "serializer ecma (options ?pr) (JNum 42) = Inr (Some ''42'')"
    by code_simp
  have thr: "setItem_throws (sessionStorage ?win) (key ?pr) (DOMString (Some ''42'')) = None"
    by (simp add: tab_def empty_store_def)
  have rest: "\<not> IS_SERVER (browser empty_store)
      \<and> getItem_throws (sessionStorage ?win) (key ?pr) = None
      \<and> DOMString (Some ''42'') \<noteq> []
      \<and> eval_initial (initialValue ?pr) = Inr (JNum 0)
      \<and> fst (deserializer ecma ?pr (DOMString (Some ''42''))) = Inr (JNum 42)"
    by code_simp
  note twice = setValue_twice [OF win open_ enc thr, of "\<lparr>storedValue = JNum 0\<rparr>" "JNum 0"]
  from twice rest have "fst (readValue ecma ?pr
      (snd (setValue ecma ?pr (SetLiteral (JNum 42))
        (setValue ecma ?pr (SetLiteral (JNum 42))
             (\<lparr>storedValue = JNum 0\<rparr>, browser empty_store))))) = Inr (JNum 42)"
    by blast
  moreover from twice have "map_option dispatched (window
      (snd (setValue ecma ?pr (SetLiteral (JNum 42))
        (setValue ecma ?pr (SetLiteral (JNum 42))
             (\<lparr>storedValue = JNum 0\<rparr>, browser empty_store)))))
      = Some (dispatched ?win @ [StorageEvent ''session-storage'' (Some (key ?pr)),
              StorageEvent ''session-storage'' (Some (key ?pr))])"
    by blast
  ultimately show ?thesis
    by (simp add: count_props_def tab_def)
qed

text \<open>
  A Set of 1 and 2 under the default codec, written twice: the store holds the text
  of the array and the read returns the array, which is not the Set.
\<close>

theorem setValue_twice_Set_counterexample:
  "fst (readValue ecma tags_props
      (snd (setValue ecma tags_props (SetLiteral (JSet [JNum 1, JNum 2]))
        (setValue ecma tags_props (SetLiteral (JSet [JNum 1, JNum 2]))
             (\<lparr>storedValue = JNull\<rparr>, browser empty_store))))) = Inr (JArr [JNum 1, JNum 2])
   \<and> JArr [JNum 1, JNum 2] \<noteq> JSet [JNum 1, JNum 2]
   \<and> sessionStorage_getItem
      (snd (setValue ecma tags_props (SetLiteral (JSet [JNum 1, JNum 2]))
        (setValue ecma tags_props (SetLiteral (JSet [JNum 1, JNum 2]))
             (\<lparr>storedValue = JNull\<rparr>, browser empty_store)))) ''tags'' = Inr (Some ''[1,2]'')"
  by code_simp

subsection \<open>The state and the store\<close>

text \<open>
  Claim C6, as the code has it. Take a hook whose \<^verbatim>\<open>initialValue\<close> evaluates. After a
  read has completed (the handler has run on an event with no key or with the
  hook's key) and after a write has succeeded (the hook's own handler has run inside
  \<^verbatim>\<open>dispatchEvent\<close>), the state is \<open>deserializer\<close> of the stored text when the hook is
  not on the server, \<^verbatim>\<open>getItem\<close> returns a text that is not empty and \<open>deserializer\<close>
  returns; it is the evaluation of \<^verbatim>\<open>initialValue\<close> on the server, when \<^verbatim>\<open>getItem\<close>
  throws, when the key is absent, when the stored text is the empty string and when
  \<open>deserializer\<close> throws. A write that leaves the window as it was (it has failed:
  nothing stored, nothing dispatched) leaves the state as it was. (The claim as
  written, with the empty string among the texts that are decoded, fails.)
\<close>

theorem cache_after_read_or_write:
  assumes "eval_initial (initialValue pr) = Inr init"
  shows "((handleStorageChange P pr ev (h, w) = Inr (h', w')
            \<and> (event_key ev = None \<or> event_key ev = Some (key pr)))
          \<or> (setValue P pr a (h, w) = (h', w')
            \<and> (\<exists>u win enc. fst (resolve P pr a w) = Inr u \<and> window w = Some win
                  \<and> sessionStorage_throws win = None
                  \<and> serializer P (options pr) u = Inr enc
                  \<and> setItem_throws (sessionStorage win) (key pr) (DOMString enc) = None))
        \<longrightarrow> (\<not> IS_SERVER w' \<and> sessionStorage_getItem w' (key pr) = Inr (Some s) \<and> s \<noteq> []
                \<and> fst (deserializer P pr s) = Inr v
              \<longrightarrow> storedValue h' = v)
          \<and> (IS_SERVER w' \<or> sessionStorage_getItem w' (key pr) = Inl e
                \<or> sessionStorage_getItem w' (key pr) = Inr None
                \<or> sessionStorage_getItem w' (key pr) = Inr (Some [])
                \<or> sessionStorage_getItem w' (key pr) = Inr (Some s)
                    \<and> fst (deserializer P pr s) = Inl e
              \<longrightarrow> storedValue h' = init))
       \<and> (setValue P pr a (h, w) = (h', w') \<and> window w' = window w
        \<longrightarrow> h' = h \<and> IS_SERVER w' = IS_SERVER w)"
proof -
  let ?completed = "(handleStorageChange P pr ev (h, w) = Inr (h', w')
            \<and> (event_key ev = None \<or> event_key ev = Some (key pr)))
          \<or> (setValue P pr a (h, w) = (h', w')
            \<and> (\<exists>u win enc. fst (resolve P pr a w) = Inr u \<and> window w = Some win
                  \<and> sessionStorage_throws win = None
                  \<and> serializer P (options pr) u = Inr enc
                  \<and> setItem_throws (sessionStorage win) (key pr) (DOMString enc) = None))"
  have synced: "fst (readValue P pr w') = Inr (storedValue h')" if "?completed"
    using that
  proof
    assume rd: "handleStorageChange P pr ev (h, w) = Inr (h', w')
            \<and> (event_key ev = None \<or> event_key ev = Some (key pr))"
    obtain r msgs where r: "readValue P pr w = (Inr r, msgs)"
      using readValue_cases [OF assms, of P w] by (cases "readValue P pr w") auto
    from rd have k: "event_key ev = None \<or> event_key ev = Some (key pr)"
      by simp
    have "handleStorageChange P pr ev (h, w) = Inr (h\<lparr>storedValue := r\<rparr>, log msgs w)"
      using handleStorageChange_reads [OF k, of P h w] r by simp
    with rd have "h' = h\<lparr>storedValue := r\<rparr>" "w' = log msgs w"
      by simp_all
    with r show ?thesis by simp
  next
    assume wr: "setValue P pr a (h, w) = (h', w')
            \<and> (\<exists>u win enc. fst (resolve P pr a w) = Inr u \<and> window w = Some win
                  \<and> sessionStorage_throws win = None
                  \<and> serializer P (options pr) u = Inr enc
                  \<and> setItem_throws (sessionStorage win) (key pr) (DOMString enc) = None)"
    then obtain u win enc where parts: "fst (resolve P pr a w) = Inr u" "window w = Some win"
        "sessionStorage_throws win = None" "serializer P (options pr) u = Inr enc"
        "setItem_throws (sessionStorage win) (key pr) (DOMString enc) = None"
      by blast
    note saved = save_returns [OF parts(2-5)]
    obtain r where r: "fst (readValue P pr w') = Inr r"
      using readValue_cases [OF assms, of P w'] by auto
    from state_after_setValue [OF parts(1) saved, of h] wr r
    show ?thesis by simp
  qed
  have decoded: "storedValue h' = v"
    if "?completed"
      and "\<not> IS_SERVER w' \<and> sessionStorage_getItem w' (key pr) = Inr (Some s) \<and> s \<noteq> []
                \<and> fst (deserializer P pr s) = Inr v"
    using synced [OF that(1)] that(2) by (simp add: readValue_cases [OF assms])
  have fallback: "storedValue h' = init"
    if "?completed"
      and "IS_SERVER w' \<or> sessionStorage_getItem w' (key pr) = Inl e
                \<or> sessionStorage_getItem w' (key pr) = Inr None
                \<or> sessionStorage_getItem w' (key pr) = Inr (Some [])
                \<or> sessionStorage_getItem w' (key pr) = Inr (Some s)
                    \<and> fst (deserializer P pr s) = Inl e"
    using synced [OF that(1)] that(2)
    by (auto simp: readValue_cases [OF assms] split: if_splits)
  have failed: "h' = h \<and> IS_SERVER w' = IS_SERVER w"
    if "setValue P pr a (h, w) = (h', w') \<and> window w' = window w"
    using that setValue_same_window [of P pr a h w] IS_SERVER_setValue [of P pr a h w]
    by simp
  from decoded fallback failed show ?thesis
    by blast
qed

text \<open>
  The hook for a name writes \<^verbatim>\<open>Ada\<close> to an empty store: the store holds the text and
  the state is the name read back from it.
\<close>

theorem cache_after_read_or_write_witness:
  "sessionStorage_getItem (snd (setValue ecma name_props (SetLiteral (JStr ''Ada''))
       (\<lparr>storedValue = JStr ''x''\<rparr>, browser empty_store))) ''name'' = Inr (Some ''Ada'')
   \<and> fst (deserializer ecma name_props ''Ada'') = Inr (JStr ''Ada'')
   \<and> storedValue (fst (setValue ecma name_props (SetLiteral (JStr ''Ada''))
       (\<lparr>storedValue = JStr ''x''\<rparr>, browser empty_store))) = JStr ''Ada''"
proof -
  let ?pr = "name_props"
  let ?w = "browser empty_store"
  let ?h = "\<lparr>storedValue = JStr ''x''\<rparr>"
  let ?a = "SetLiteral (JStr ''Ada'')"
  obtain h' w' where sv: "setValue ecma ?pr ?a (?h, ?w) = (h', w')"
    by (cases "setValue ecma ?pr ?a (?h, ?w)")
  have init: "eval_initial (initialValue ?pr) = Inr (JStr ''anonymous'')"
    by (simp add: name_props_def)
  have res: "fst (resolve ecma ?pr ?a ?w) = Inr (JStr ''Ada'')"
    by simp
  have win: "window ?w = Some (tab empty_store)" "sessionStorage_throws (tab empty_store) = None"
    by (simp_all add: browser_def tab_def)
  have enc: "serializer ecma (options ?pr) (JStr ''Ada'') = Inr (Some ''Ada'')"
    by (simp add: serializer_def name_props_def text_options_def)
  have thr: "setItem_throws (sessionStorage (tab empty_store)) (key ?pr) (DOMString (Some ''Ada'')) = None"
    "getItem_throws (sessionStorage (tab empty_store)) (key ?pr) = None"
    by (simp_all add: tab_def empty_store_def)
  have raw: "sessionStorage_getItem w' (key ?pr) = Inr (Some ''Ada'')"
    using getItem_after_setValue [OF res win enc thr, of ?h] sv by (simp add: DOMString_def)
  have srv: "\<not> IS_SERVER w'"
    using IS_SERVER_setValue [of ecma ?pr ?a ?h ?w] sv by (simp add: browser_def)
  have dec: "fst (deserializer ecma ?pr ''Ada'') = Inr (JStr ''Ada'')"
    by (simp add: deserializer_def name_props_def text_options_def)
  have "storedValue h' = JStr ''Ada''"
    using cache_after_read_or_write [OF init, of ecma undefined ?h ?w h' w' ?a "''Ada''"
        "JStr ''Ada''" undefined] sv res win enc thr(1) raw srv dec
    by blast
  with sv raw dec show ?thesis
    by (simp add: name_props_def)
qed

text \<open>
  The hook for a name, with the codec that stores the text itself. A store holds the
  empty string under its key: decoding the empty string gives the empty name, but
  after the handler has read, the state is the initial name. And a write of the
  empty name to an empty store succeeds, stores the empty string, and leaves the
  state at the initial name.
\<close>

theorem cache_empty_string_counterexample:
  "sessionStorage_getItem (browser (store_with ''name'' '''')) ''name'' = Inr (Some '''')
   \<and> fst (deserializer ecma name_props '''') = Inr (JStr '''')
   \<and> map_sum id (storedValue \<circ> fst) (handleStorageChange ecma name_props
        (StorageEvent ''session-storage'' (Some ''name''))
        (\<lparr>storedValue = JStr ''x''\<rparr>, browser (store_with ''name'' '''')))
       = Inr (JStr ''anonymous'')
   \<and> JStr ''anonymous'' \<noteq> JStr ''''
   \<and> sessionStorage_getItem (snd (setValue ecma name_props (SetLiteral (JStr ''''))
        (\<lparr>storedValue = JStr ''x''\<rparr>, browser empty_store))) ''name'' = Inr (Some '''')
   \<and> storedValue (fst (setValue ecma name_props (SetLiteral (JStr ''''))
        (\<lparr>storedValue = JStr ''x''\<rparr>, browser empty_store))) = JStr ''anonymous''"
  by code_simp

subsection \<open>Notifications\<close>

text \<open>
  Claim C7, as the code has it. An event whose key is not empty and differs from the
  hook's key is ignored: state and world are unchanged. An event with no key or with
  the hook's key makes the handler read again and store the result (and throw what
  the read throws). (The claim as written, that every event with a different key is
  ignored, fails for the empty key.)
\<close>

theorem handleStorageChange_filter:
  "(event_key ev = Some k \<and> k \<noteq> [] \<and> k \<noteq> key pr
      \<longrightarrow> handleStorageChange P pr ev (h, w) = Inr (h, w))
   \<and> (event_key ev = None \<or> event_key ev = Some (key pr)
      \<longrightarrow> handleStorageChange P pr ev (h, w)
            = (case readValue P pr w of
                 (Inl e, msgs) \<Rightarrow> Inl e
               | (Inr v, msgs) \<Rightarrow> Inr (h\<lparr>storedValue := v\<rparr>, log msgs w)))"
  by (auto simp: handleStorageChange.simps)

theorem handleStorageChange_filter_witness:
  "handleStorageChange ecma (count_props default_options)
       (StorageEvent ''storage'' (Some ''other''))
       (\<lparr>storedValue = JNum 0\<rparr>, browser (store_with ''count'' ''7''))
     = Inr (\<lparr>storedValue = JNum 0\<rparr>, browser (store_with ''count'' ''7''))
   \<and> handleStorageChange ecma (count_props default_options)
       (StorageEvent ''session-storage'' (Some ''count''))
       (\<lparr>storedValue = JNum 0\<rparr>, browser (store_with ''count'' ''7''))
     = Inr (\<lparr>storedValue = JNum 7\<rparr>, browser (store_with ''count'' ''7''))
   \<and> handleStorageChange ecma (count_props default_options)
       (CustomEvent ''session-storage'')
       (\<lparr>storedValue = JNum 0\<rparr>, browser (store_with ''count'' ''7''))
     = Inr (\<lparr>storedValue = JNum 7\<rparr>, browser (store_with ''count'' ''7''))"
proof -
  let ?pr = "count_props default_options"
  let ?w = "browser (store_with ''count'' ''7'')"
  have rd: "readValue ecma ?pr ?w = (Inr (JNum 7), [])"
    by code_simp
  have k: "key ?pr = ''count''"
    by (simp add: count_props_def)
  show ?thesis
    using handleStorageChange_filter [of "StorageEvent ''storage'' (Some ''other'')" "''other''"
        ?pr ecma "\<lparr>storedValue = JNum 0\<rparr>" ?w]
      handleStorageChange_filter [of "StorageEvent ''session-storage'' (Some ''count'')"
        "''count''" ?pr ecma "\<lparr>storedValue = JNum 0\<rparr>" ?w]
      handleStorageChange_filter [of "CustomEvent ''session-storage''" "''count''" ?pr ecma
        "\<lparr>storedValue = JNum 0\<rparr>" ?w]
      rd k
    by simp
qed

text \<open>
  The store holds 7 under the hook's key \<^verbatim>\<open>count\<close> and the state is 0. An event with
  the empty key, which differs from \<^verbatim>\<open>count\<close>, is not ignored: the state becomes 7.
\<close>

theorem handleStorageChange_empty_key_counterexample:
  "event_key (StorageEvent ''storage'' (Some '''')) = Some ''''
   \<and> '''' \<noteq> key (count_props default_options)
   \<and> map_sum id (storedValue \<circ> fst) (handleStorageChange ecma (count_props default_options)
        (StorageEvent ''storage'' (Some ''''))
        (\<lparr>storedValue = JNum 0\<rparr>, browser (store_with ''count'' ''7''))) = Inr (JNum 7)
   \<and> JNum 7 \<noteq> JNum 0"
  by code_simp

end
